theory Spec2Isabelle
  imports Complex_Main "HOL-Library.Log_Nat"
begin

section \<open>JavaScript values\<close>

text \<open>
  The values that travel through \<^verbatim>\<open>llm-processor.js\<close> and \<^verbatim>\<open>api-clients.js\<close> are
  decoded JSON documents. An object is the list of its own properties in enumeration
  order (keys distinct), a number is a finite rational, and JavaScript's
  \<^verbatim>\<open>undefined\<close> is \<open>None\<close> of \<open>json option\<close>.
\<close>

datatype json =
    JNull
  | JBool bool
  | JNum rat
  | JStr string
  | JArr "json list"
  | JObj "(string \<times> json) list"

text \<open>What \<^verbatim>\<open>throw\<close> raises: \<^verbatim>\<open>new Error(msg)\<close> with a string, \<^verbatim>\<open>new Error(v)\<close> with a value
  of the reply, the engine's \<^verbatim>\<open>TypeError\<close> on a property read of \<^verbatim>\<open>null\<close> or \<^verbatim>\<open>undefined\<close>
  (or a call of what is no function), the \<^verbatim>\<open>SyntaxError\<close> of \<^verbatim>\<open>JSON.parse\<close>, a rejected
  \<^verbatim>\<open>fetch\<close>, a rejected \<^verbatim>\<open>response.json()\<close>, and \<^verbatim>\<open>new Error(prefix + error.message)\<close>
  around a caught error.\<close>

datatype js_error =
    Error string
  | ErrorOf json
  | TypeError
  | SyntaxError
  | FetchRejected
  | JsonRejected
  | Wrapped string js_error

definition and_then :: "js_error + 'a \<Rightarrow> ('a \<Rightarrow> js_error + 'b) \<Rightarrow> js_error + 'b" where
  "and_then r f = (case r of Inl e \<Rightarrow> Inl e | Inr v \<Rightarrow> f v)"

text \<open>Truthiness, as \<^verbatim>\<open>if (x)\<close>, \<^verbatim>\<open>!x\<close> and \<^verbatim>\<open>x || y\<close> read a value.\<close>

fun truthy :: "json option \<Rightarrow> bool" where
  "truthy None = False"
| "truthy (Some JNull) = False"
| "truthy (Some (JBool b)) = b"
| "truthy (Some (JNum r)) = (r \<noteq> 0)"
| "truthy (Some (JStr s)) = (s \<noteq> [])"
| "truthy (Some (JArr xs)) = True"
| "truthy (Some (JObj fs)) = True"

text \<open>
  \<^verbatim>\<open>x.name\<close> and \<^verbatim>\<open>x['name']\<close>: a \<^verbatim>\<open>TypeError\<close> on \<^verbatim>\<open>null\<close> and \<^verbatim>\<open>undefined\<close>, the own
  property of an object, and \<^verbatim>\<open>undefined\<close> on every other value (none of the names the
  source reads is a built-in property of a string, number, boolean or array).
\<close>

fun member :: "json option \<Rightarrow> string \<Rightarrow> js_error + json option" where
  "member None k = Inl TypeError"
| "member (Some JNull) k = Inl TypeError"
| "member (Some (JObj fs)) k = Inr (map_of fs k)"
| "member (Some v) k = Inr None"

text \<open>\<^verbatim>\<open>x[0]\<close>: the first element of an array, the first character of a string, the
  property \<^verbatim>\<open>"0"\<close> of an object.\<close>

fun elem0 :: "json option \<Rightarrow> js_error + json option" where
  "elem0 None = Inl TypeError"
| "elem0 (Some JNull) = Inl TypeError"
| "elem0 (Some (JArr xs)) = Inr (case xs of [] \<Rightarrow> None | x # _ \<Rightarrow> Some x)"
| "elem0 (Some (JStr s)) = Inr (case s of [] \<Rightarrow> None | c # _ \<Rightarrow> Some (JStr [c]))"
| "elem0 (Some (JObj fs)) = Inr (map_of fs ''0'')"
| "elem0 (Some v) = Inr None"

subsection \<open>Insertion-ordered maps\<close>

text \<open>
  A JavaScript \<^verbatim>\<open>Map\<close> (and the property list of an object) keeps its keys in insertion
  order: \<^verbatim>\<open>set\<close> on a key that is present replaces the value where it stands, \<^verbatim>\<open>set\<close> on a
  new key appends, \<^verbatim>\<open>get\<close> looks a key up (\<^verbatim>\<open>has\<close> is whether it finds one), \<^verbatim>\<open>delete\<close>
  removes the key, and \<^verbatim>\<open>keys().next().value\<close> is the
  earliest-inserted key still present (\<^verbatim>\<open>undefined\<close> on an empty map).
\<close>

type_synonym ('k, 'v) js_map = "('k \<times> 'v) list"

fun map_set :: "'k \<Rightarrow> 'v \<Rightarrow> ('k, 'v) js_map \<Rightarrow> ('k, 'v) js_map" where
  "map_set k v [] = [(k, v)]"
| "map_set k v ((k', v') # m) = (if k = k' then (k, v) # m else (k', v') # map_set k v m)"

fun map_delete :: "'k \<Rightarrow> ('k, 'v) js_map \<Rightarrow> ('k, 'v) js_map" where
  "map_delete k [] = []"
| "map_delete k ((k', v') # m) = (if k = k' then m else (k', v') # map_delete k m)"

definition map_get :: "('k, 'v) js_map \<Rightarrow> 'k \<Rightarrow> 'v option" where
  "map_get m k = map_of m k"

definition map_size :: "('k, 'v) js_map \<Rightarrow> nat" where
  "map_size m = length m"

definition first_key :: "('k, 'v) js_map \<Rightarrow> 'k option" where
  "first_key m = (case m of [] \<Rightarrow> None | (k, _) # _ \<Rightarrow> Some k)"

subsection \<open>Decimal index keys\<close>

definition digit_char :: "nat \<Rightarrow> char" where
  "digit_char d = char_of (48 + d)"

function dec :: "nat \<Rightarrow> string" where
  "dec n = (if n < 10 then [digit_char n] else dec (n div 10) @ [digit_char (n mod 10)])"
  by pat_completeness auto
termination
  by (relation "measure id") auto

declare dec.simps [simp del]

text \<open>The own enumerable properties that \<^verbatim>\<open>{...value}\<close> copies: the properties of an
  object, the indexed elements of an array, the indexed characters of a string, nothing
  of a number, a boolean or \<^verbatim>\<open>null\<close>.\<close>

fun indexed :: "nat \<Rightarrow> json list \<Rightarrow> (string \<times> json) list" where
  "indexed i [] = []"
| "indexed i (x # xs) = (dec i, x) # indexed (Suc i) xs"

fun spread :: "json \<Rightarrow> (string \<times> json) list" where
  "spread (JObj fs) = fs"
| "spread (JArr xs) = indexed 0 xs"
| "spread (JStr s) = indexed 0 (map (\<lambda>c. JStr [c]) s)"
| "spread v = []"

subsection \<open>Numbers\<close>

text \<open>
  A JavaScript number is an IEEE 754 binary64 value. The finite ones are rationals;
  an arithmetic result is the exact result rounded to the nearest value with a 53-bit
  significand, ties to the even significand (magnitudes below \<open>2 ^ 1024\<close>, which is all
  that the sums of this program reach). A decimal literal of the source denotes the
  rounding of its decimal value.
\<close>

definition pow2 :: "int \<Rightarrow> rat" where
  "pow2 e = (if 0 \<le> e then 2 ^ nat e else 1 / 2 ^ nat (- e))"

text \<open>The binade of a non-zero \<open>x\<close>: the \<open>e\<close> with \<open>2 ^ e \<le> \<bar>x\<bar> < 2 ^ (e + 1)\<close>.\<close>

definition binade :: "rat \<Rightarrow> int" where
  "binade x = (let (p, q) = quotient_of \<bar>x\<bar>; d = bitlen p - bitlen q
               in if \<bar>x\<bar> < pow2 d then d - 1 else d)"

definition round_even :: "rat \<Rightarrow> int" where
  "round_even x = (let f = \<lfloor>x\<rfloor>; r = x - of_int f
                   in if r < 1 / 2 then f else if 1 / 2 < r then f + 1
                      else if even f then f else f + 1)"

definition rnd :: "rat \<Rightarrow> rat" where
  "rnd x = (if x = 0 then 0
            else let u = pow2 (max (binade x) (- 1022) - 52)
                 in of_int (round_even (x / u)) * u)"

definition dadd :: "rat \<Rightarrow> rat \<Rightarrow> rat" where
  "dadd x y = rnd (x + y)"


subsection \<open>Strings\<close>

text \<open>\<^verbatim>\<open>s.includes(sub)\<close> and \<^verbatim>\<open>s.toLowerCase()\<close> (on the ASCII letters; the three
  patterns searched for are ASCII, and no other character lower-cases to an ASCII letter
  that stands directly before another letter of a pattern).\<close>

fun starts_with :: "string \<Rightarrow> string \<Rightarrow> bool" where
  "starts_with s [] = True"
| "starts_with [] (c # cs) = False"
| "starts_with (x # xs) (c # cs) = (x = c \<and> starts_with xs cs)"

fun str_includes :: "string \<Rightarrow> string \<Rightarrow> bool" where
  "str_includes [] sub = (sub = [])"
| "str_includes (x # xs) sub = (starts_with (x # xs) sub \<or> str_includes xs sub)"

definition lower_char :: "char \<Rightarrow> char" where
  "lower_char c = (let n = of_char c :: nat in if 65 \<le> n \<and> n \<le> 90 then char_of (n + 32) else c)"

definition toLowerCase :: "string \<Rightarrow> string" where
  "toLowerCase s = map lower_char s"

section \<open>The LLM processor (\<^verbatim>\<open>llm-processor.js\<close>)\<close>

text \<open>The fields of \<^verbatim>\<open>LLMProcessor\<close> that its methods read and write. The cache is a
  \<^verbatim>\<open>Map\<close> from cache keys to the stored objects (their property lists).\<close>

record llm_processor =
  apiKey :: "string option"
  baseUrl :: string
  model :: string
  cache :: "(string, (string \<times> json) list) js_map"
  maxCacheSize :: nat
  failureCount :: nat
  remoteDisabled :: bool

definition constructor :: llm_processor where
  "constructor = \<lparr> apiKey = None,
                   baseUrl = ''https://api.openai.com/v1/chat/completions'',
                   model = ''gpt-3.5-turbo'',
                   cache = [],
                   maxCacheSize = 100,
                   failureCount = 0,
                   remoteDisabled = False \<rparr>"

text \<open>What \<^verbatim>\<open>fetch\<close> gives back: it rejects, or it resolves to a response with a status,
  whose \<^verbatim>\<open>json()\<close> yields the decoded body or rejects (\<open>None\<close>). \<^verbatim>\<open>response.ok\<close> is the
  Fetch API's: a status in the range 200 to 299.\<close>

record http_response =
  status :: nat
  statusText :: string
  body :: "json option"

datatype fetch_result = Rejects | Responds http_response

definition ok :: "http_response \<Rightarrow> bool" where
  "ok r = (200 \<le> status r \<and> status r \<le> 299)"

text \<open>The request that \<^verbatim>\<open>makeLLMCall\<close> posts: the endpoint, the bearer credential, the
  model, the key of the system instruction and the user message.\<close>

record llm_request =
  endpoint :: string
  bearer :: string
  req_model :: string
  instruction :: string
  user_content :: string

text \<open>\<^verbatim>\<open>!this.apiKey\<close>, \<^verbatim>\<open>if (baseUrl)\<close>: a string that is \<^verbatim>\<open>null\<close> or empty is falsy.\<close>

definition no_key :: "string option \<Rightarrow> bool" where
  "no_key k = (case k of None \<Rightarrow> True | Some s \<Rightarrow> s = [])"

text \<open>
  \<^verbatim>\<open>parseLLMResponse\<close>. \<open>JSON_parse\<close> is the runtime's \<^verbatim>\<open>JSON.parse\<close> on the content
  (\<open>Inl SyntaxError\<close> when it throws) and \<open>now\<close> is \<^verbatim>\<open>Date.now()\<close>. \<open>content_of\<close> is
  \<^verbatim>\<open>response.choices[0].message.content\<close>. The inner \<^verbatim>\<open>catch\<close> wraps the content that did
  not decode (\<open>None\<close> when the message has no content property: the read gives
  \<^verbatim>\<open>undefined\<close>); the outer one answers a reply on which the read itself throws.
\<close>

definition content_of :: "json \<Rightarrow> js_error + json option" where
  "content_of response =
     and_then (member (Some response) ''choices'') (\<lambda>choices.
     and_then (elem0 choices) (\<lambda>choice.
     and_then (member choice ''message'') (\<lambda>message.
     member message ''content'')))"

definition text_wrapper :: "json option \<Rightarrow> nat \<Rightarrow> json" where
  "text_wrapper content now =
     JObj ((case content of None \<Rightarrow> [] | Some c \<Rightarrow> [(''text'', c)]) @
           [(''parsed'', JBool True), (''timestamp'', JNum (of_nat now))])"

definition parseLLMResponse ::
  "(json option \<Rightarrow> js_error + json) \<Rightarrow> nat \<Rightarrow> json \<Rightarrow> js_error + json" where
  "parseLLMResponse JSON_parse now response =
     (case content_of response of
        Inr content \<Rightarrow>
          (case JSON_parse content of
             Inr v \<Rightarrow> Inr v
           | Inl e \<Rightarrow> Inr (text_wrapper content now))
      | Inl e \<Rightarrow>
          Inr (JObj [(''text'', JStr ''Unable to process LLM response''),
                     (''parsed'', JBool False)]))"

text \<open>A decoder for running examples on replies that are no JSON text, which
  \<^verbatim>\<open>JSON.parse\<close> rejects with a \<^verbatim>\<open>SyntaxError\<close>.\<close>

definition not_json_text :: "json option \<Rightarrow> js_error + json" where
  "not_json_text content = Inl SyntaxError"

text \<open>
  \<^verbatim>\<open>fallbackProcessing\<close>, the \<^verbatim>\<open>switch\<close> on the prompt type. The regex extraction of
  \<^verbatim>\<open>fallbackTaskUnderstanding\<close> is the parameter \<open>ftu\<close>; the other routines return fixed
  objects.
\<close>

definition fallbackConditionAnalysis :: json where
  "fallbackConditionAnalysis =
     JObj [(''conditionsMet'', JBool True), (''actionRequired'', JBool True),
           (''confidence'', JNum (rnd (8 / 10))),
           (''recommendations'',
              JArr [JStr ''Monitor trends closely'', JStr ''Set up additional alerts'']),
           (''fallback'', JBool True)]"

definition fallbackDataInterpretation :: json where
  "fallbackDataInterpretation =
     JObj [(''sentiment'', JStr ''neutral''), (''trend'', JStr ''stable''),
           (''riskLevel'', JStr ''medium''),
           (''recommendations'', JArr [JStr ''Continue monitoring'']),
           (''fallback'', JBool True)]"

definition fallbackDecisionMaking :: json where
  "fallbackDecisionMaking =
     JObj [(''action'', JStr ''continue_monitoring''), (''confidence'', JNum (rnd (7 / 10))),
           (''reasoning'', JStr ''Fallback decision made''), (''fallback'', JBool True)]"

definition fallbackProcessing :: "(string \<Rightarrow> json) \<Rightarrow> string \<Rightarrow> string \<Rightarrow> json" where
  "fallbackProcessing ftu promptType prompt =
     (if promptType = ''task_understanding'' then ftu prompt
      else if promptType = ''condition_analysis'' then fallbackConditionAnalysis
      else if promptType = ''data_interpretation'' then fallbackDataInterpretation
      else if promptType = ''decision_making'' then fallbackDecisionMaking
      else JObj [(''text'', JStr ''Processing unavailable''), (''parsed'', JBool False)])"

text \<open>
  \<^verbatim>\<open>makeLLMCall\<close>, one call run to completion. \<open>net\<close> is what \<^verbatim>\<open>fetch\<close> does if it is
  called. The result is the returned value, the processor afterwards, and the request
  handed to \<^verbatim>\<open>fetch\<close> (\<open>None\<close> when \<^verbatim>\<open>fetch\<close> was not called).

  \<open>remote_try\<close> is the \<^verbatim>\<open>try\<close> block: \<open>Inr\<close> the parsed reply, or \<open>Inl\<close> the processor as the
  block left it when it threw (a 400 or 401 has already disabled it). \<open>on_failure\<close> is the
  \<^verbatim>\<open>catch\<close> block.
\<close>

definition remote_try ::
  "(json option \<Rightarrow> js_error + json) \<Rightarrow> nat \<Rightarrow> llm_processor \<Rightarrow> fetch_result \<Rightarrow>
   llm_processor + json"
where
  "remote_try JSON_parse now s net =
     (case net of
        Rejects \<Rightarrow> Inl s
      | Responds r \<Rightarrow>
          if \<not> ok r then
            (if status r = 400 \<or> status r = 401
             then Inl (s\<lparr>remoteDisabled := True, apiKey := None\<rparr>)
             else Inl s)
          else (case body r of
                  None \<Rightarrow> Inl s
                | Some result \<Rightarrow>
                    (case parseLLMResponse JSON_parse now result of
                       Inr v \<Rightarrow> Inr v
                     | Inl e \<Rightarrow> Inl s)))"

definition on_failure :: "llm_processor \<Rightarrow> llm_processor" where
  "on_failure s =
     (let s1 = s\<lparr>failureCount := failureCount s + 1\<rparr>
      in if failureCount s1 \<ge> 1 then s1\<lparr>apiKey := None, remoteDisabled := True\<rparr> else s1)"

definition makeLLMCall ::
  "(string \<Rightarrow> json) \<Rightarrow> (json option \<Rightarrow> js_error + json) \<Rightarrow> nat \<Rightarrow> fetch_result \<Rightarrow>
   llm_processor \<Rightarrow> string \<Rightarrow> string \<Rightarrow> json \<times> llm_processor \<times> llm_request option"
where
  "makeLLMCall ftu JSON_parse now net s promptType prompt =
     (if no_key (apiKey s) \<or> remoteDisabled s
      then (fallbackProcessing ftu promptType prompt, s, None)
      else
        let request = \<lparr> endpoint = baseUrl s, bearer = the (apiKey s), req_model = model s,
                         instruction = promptType, user_content = prompt \<rparr>
        in case remote_try JSON_parse now s net of
             Inr v \<Rightarrow> (v, s, Some request)
           | Inl s' \<Rightarrow> (fallbackProcessing ftu promptType prompt, on_failure s', Some request))"

text \<open>\<^verbatim>\<open>updateConfig\<close>: the key is always assigned, the endpoint and the model only when
  the argument is truthy. (The write to \<^verbatim>\<open>chrome.storage.local\<close> that follows touches no
  field of the processor.)\<close>

definition updateConfig ::
  "string option \<Rightarrow> string option \<Rightarrow> string option \<Rightarrow> llm_processor \<Rightarrow> llm_processor" where
  "updateConfig key url_arg model_arg s =
     (let s1 = s\<lparr>apiKey := key\<rparr>;
          s2 = (if no_key url_arg then s1 else s1\<lparr>baseUrl := the url_arg\<rparr>)
      in if no_key model_arg then s2 else s2\<lparr>model := the model_arg\<rparr>)"

text \<open>\<^verbatim>\<open>initialize\<close>: the settings come from \<^verbatim>\<open>CONFIG.LLM\<close> when the hard-coded
  configuration is on (\<open>hardcoded\<close>), otherwise from the stored \<^verbatim>\<open>agentic_settings\<close>
  (\<open>saved\<close>; \<open>None\<close> when there are none or the read fails). A falsy setting leaves the
  field as it is.\<close>

record llm_settings =
  set_apiKey :: "string option"
  set_baseUrl :: "string option"
  set_model :: "string option"

definition apply_settings :: "llm_settings \<Rightarrow> llm_processor \<Rightarrow> llm_processor" where
  "apply_settings cfg s =
     s\<lparr> apiKey := (if no_key (set_apiKey cfg) then apiKey s else set_apiKey cfg),
        baseUrl := (if no_key (set_baseUrl cfg) then baseUrl s else the (set_baseUrl cfg)),
        model := (if no_key (set_model cfg) then model s else the (set_model cfg)) \<rparr>"

definition initialize ::
  "llm_settings option \<Rightarrow> llm_settings option \<Rightarrow> llm_processor \<Rightarrow> llm_processor" where
  "initialize hardcoded saved s =
     (case hardcoded of
        Some cfg \<Rightarrow> apply_settings cfg s
      | None \<Rightarrow> (case saved of None \<Rightarrow> s | Some cfg \<Rightarrow> apply_settings cfg s))"

text \<open>\<^verbatim>\<open>storeInCache\<close>: at capacity the first key of the \<^verbatim>\<open>Map\<close> is deleted
  (\<^verbatim>\<open>delete(undefined)\<close> on an empty map removes nothing), then the value is stored with
  its \<^verbatim>\<open>cacheTimestamp\<close>.\<close>

definition cache_entry :: "nat \<Rightarrow> json \<Rightarrow> (string \<times> json) list" where
  "cache_entry now v = map_set ''cacheTimestamp'' (JNum (of_nat now)) (spread v)"

definition storeInCache :: "nat \<Rightarrow> string \<Rightarrow> json \<Rightarrow> llm_processor \<Rightarrow> llm_processor" where
  "storeInCache now key v s =
     (let c = (if map_size (cache s) \<ge> maxCacheSize s
               then (case first_key (cache s) of
                       None \<Rightarrow> cache s
                     | Some firstKey \<Rightarrow> map_delete firstKey (cache s))
               else cache s)
      in s\<lparr>cache := map_set key (cache_entry now v) c\<rparr>)"

text \<open>The operations of one process on its processor, in the order they complete, and
  what each call of \<^verbatim>\<open>makeLLMCall\<close> returned: its prompt type, its prompt, the value and
  the request it sent, if any.\<close>

datatype event =
    Call nat fetch_result string string
  | UpdateConfig "string option" "string option" "string option"
  | Initialize "llm_settings option" "llm_settings option"
  | Store nat string json

fun run ::
  "(string \<Rightarrow> json) \<Rightarrow> (json option \<Rightarrow> js_error + json) \<Rightarrow> event list \<Rightarrow> llm_processor \<Rightarrow>
   (string \<times> string \<times> json \<times> llm_request option) list \<times> llm_processor"
where
  "run ftu JSON_parse [] s = ([], s)"
| "run ftu JSON_parse (Call now net promptType prompt # evs) s =
     (case makeLLMCall ftu JSON_parse now net s promptType prompt of
        (v, s', req) \<Rightarrow>
          (case run ftu JSON_parse evs s' of
             (out, s'') \<Rightarrow> ((promptType, prompt, v, req) # out, s'')))"
| "run ftu JSON_parse (UpdateConfig key url_arg model_arg # evs) s =
     run ftu JSON_parse evs (updateConfig key url_arg model_arg s)"
| "run ftu JSON_parse (Initialize hardcoded saved # evs) s =
     run ftu JSON_parse evs (initialize hardcoded saved s)"
| "run ftu JSON_parse (Store now key v # evs) s =
     run ftu JSON_parse evs (storeInCache now key v s)"

text \<open>The calls of \<^verbatim>\<open>makeLLMCall\<close> among the operations: prompt type and prompt.\<close>

fun calls_of :: "event list \<Rightarrow> (string \<times> string) list" where
  "calls_of [] = []"
| "calls_of (Call now net promptType prompt # evs) = (promptType, prompt) # calls_of evs"
| "calls_of (ev # evs) = calls_of evs"

text \<open>A call fails when \<^verbatim>\<open>fetch\<close> rejects, the status is not in 200 to 299, or the body
  is no JSON.\<close>

definition call_fails :: "fetch_result \<Rightarrow> bool" where
  "call_fails net =
     (case net of Rejects \<Rightarrow> True | Responds r \<Rightarrow> (if ok r then body r = None else True))"

text \<open>
  \<^verbatim>\<open>calculateConfidenceScore\<close>. The data object as the function reads it: the numbers
  that \<^verbatim>\<open>price\<close> and \<^verbatim>\<open>volume\<close> compare as (\<open>None\<close> when the field is absent or \<^verbatim>\<open>NaN\<close>, for
  which every comparison is false), the source tag, and the timestamp with the time
  value that \<^verbatim>\<open>new Date(timestamp).getTime()\<close> makes of it (\<open>InvalidDate\<close> for \<^verbatim>\<open>NaN\<close>).
\<close>

datatype date = InvalidDate | Millis int

record market_data =
  data_price :: "rat option"
  data_volume :: "rat option"
  data_source :: "string option"
  data_timestamp :: "date option"

definition within_5_minutes :: "int \<Rightarrow> date option \<Rightarrow> bool" where
  "within_5_minutes now t = (case t of Some (Millis ms) \<Rightarrow> now - ms < 300000 | _ \<Rightarrow> False)"

definition exceeds :: "rat option \<Rightarrow> rat \<Rightarrow> bool" where
  "exceeds x bound = (case x of Some v \<Rightarrow> v > bound | None \<Rightarrow> False)"

definition calculateConfidenceScore :: "int \<Rightarrow> market_data option \<Rightarrow> rat" where
  "calculateConfidenceScore now data =
     (case data of
        None \<Rightarrow> rnd (1 / 10)
      | Some d \<Rightarrow>
          let score = rnd (5 / 10);
              score = (if exceeds (data_price d) 0 then dadd score (rnd (2 / 10)) else score);
              score = (if exceeds (data_volume d) 1000 then dadd score (rnd (1 / 10)) else score);
              score = (if no_key (data_source d) then score else dadd score (rnd (1 / 10)));
              score = (if within_5_minutes now (data_timestamp d)
                       then dadd score (rnd (1 / 10)) else score)
          in min score 1)"

text \<open>The score as the specification words it, in exact decimal arithmetic: the base
  and the four bonuses added up and clamped to 1.\<close>

definition decimal_score :: "int \<Rightarrow> market_data option \<Rightarrow> rat" where
  "decimal_score now data =
     (case data of
        None \<Rightarrow> 1 / 10
      | Some d \<Rightarrow>
          min 1 (5 / 10
                 + (if exceeds (data_price d) 0 then 2 / 10 else 0)
                 + (if exceeds (data_volume d) 1000 then 1 / 10 else 0)
                 + (if no_key (data_source d) then 0 else 1 / 10)
                 + (if within_5_minutes now (data_timestamp d) then 1 / 10 else 0)))"

section \<open>The stock data client (\<^verbatim>\<open>api-clients.js\<close>)\<close>

text \<open>
  The numeric fields of a quote are JavaScript values that the providers compute with
  \<^verbatim>\<open>parseFloat\<close>, \<^verbatim>\<open>parseInt\<close> and floating-point arithmetic on fields of the reply. They are
  carried as the expressions that compute them, unevaluated.
\<close>

datatype jsval =
    Raw "json option"
  | ParseFloat "json option"
  | ParseInt "json option"
  | Minus jsval jsval
  | Times jsval jsval
  | Divide jsval jsval
  | Num rat

text \<open>The normalized quote. \<open>symbol\<close> is the requested string with two of the providers
  and whatever \<^verbatim>\<open>meta.symbol\<close> holds with Yahoo Finance; \<open>timestamp\<close> is
  \<^verbatim>\<open>new Date().toISOString()\<close>; the third provider sets no \<open>volume\<close>.\<close>

record quote =
  symbol :: "json option"
  price :: jsval
  "open" :: jsval
  high :: jsval
  low :: jsval
  volume :: "jsval option"
  change :: jsval
  changePercent :: jsval
  timestamp :: string
  source :: string

text \<open>\<^verbatim>\<open>await fetch(url)\<close> followed by \<^verbatim>\<open>await response.json()\<close>.\<close>

definition reply :: "fetch_result \<Rightarrow> js_error + json" where
  "reply net =
     (case net of
        Rejects \<Rightarrow> Inl FetchRejected
      | Responds r \<Rightarrow> (case body r of None \<Rightarrow> Inl JsonRejected | Some d \<Rightarrow> Inr d))"

text \<open>A property of a value that is known to be truthy, where the read cannot throw.\<close>

definition field :: "json option \<Rightarrow> string \<Rightarrow> json option" where
  "field v k = (case member v k of Inr x \<Rightarrow> x | Inl e \<Rightarrow> None)"

text \<open>\<^verbatim>\<open>catch (error) { throw new Error(prefix + error.message) }\<close>\<close>

definition rethrow :: "string \<Rightarrow> js_error + 'a \<Rightarrow> js_error + 'a" where
  "rethrow prefix r = (case r of Inl e \<Rightarrow> Inl (Wrapped prefix e) | Inr v \<Rightarrow> Inr v)"

text \<open>\<^verbatim>\<open>AlphaVantageAPI.getStockData\<close>; \<open>stamp\<close> is \<^verbatim>\<open>new Date().toISOString()\<close>.\<close>

definition alphaVantage_getStockData :: "string \<Rightarrow> string \<Rightarrow> fetch_result \<Rightarrow> js_error + quote" where
  "alphaVantage_getStockData stamp ticker net =
     rethrow ''Alpha Vantage API error: ''
       (and_then (reply net) (\<lambda>data.
        and_then (member (Some data) ''Note'') (\<lambda>note.
          if truthy note then Inl (Error ''API rate limit exceeded'')
          else
            and_then (member (Some data) ''Global Quote'') (\<lambda>q.
              if \<not> truthy q then Inl (Error ''No data found for symbol'')
              else Inr \<lparr> symbol = Some (JStr ticker),
                         price = ParseFloat (field q ''05. price''),
                         open = ParseFloat (field q ''02. open''),
                         high = ParseFloat (field q ''03. high''),
                         low = ParseFloat (field q ''04. low''),
                         volume = Some (ParseInt (field q ''06. volume'')),
                         change = ParseFloat (field q ''09. change''),
                         changePercent = Raw (field q ''10. change percent''),
                         timestamp = stamp,
                         source = ''alpha_vantage'' \<rparr>))))"

text \<open>\<^verbatim>\<open>YahooFinanceAPI.getStockData\<close>. The guard is
  \<^verbatim>\<open>!data.chart || !data.chart.result || !data.chart.result[0]\<close>, read left to right; the
  reads of \<^verbatim>\<open>meta\<close> throw when \<^verbatim>\<open>result.meta\<close> is \<^verbatim>\<open>null\<close> or absent.\<close>

definition yahooFinance_getStockData :: "string \<Rightarrow> string \<Rightarrow> fetch_result \<Rightarrow> js_error + quote" where
  "yahooFinance_getStockData stamp ticker net =
     rethrow ''Yahoo Finance API error: ''
       (and_then (reply net) (\<lambda>data.
        and_then (member (Some data) ''chart'') (\<lambda>chart.
          if \<not> truthy chart \<or> \<not> truthy (field chart ''result'')
             \<or> \<not> truthy (case elem0 (field chart ''result'') of Inr x \<Rightarrow> x | Inl e \<Rightarrow> None)
          then Inl (Error ''Invalid symbol or no data'')
          else
            and_then (elem0 (field chart ''result'')) (\<lambda>result.
            and_then (member result ''meta'') (\<lambda>meta.
            and_then (member meta ''symbol'') (\<lambda>meta_symbol.
              Inr \<lparr> symbol = meta_symbol,
                    price = Raw (field meta ''regularMarketPrice''),
                    open = Raw (field meta ''regularMarketOpen''),
                    high = Raw (field meta ''regularMarketDayHigh''),
                    low = Raw (field meta ''regularMarketDayLow''),
                    volume = Some (Raw (field meta ''regularMarketVolume'')),
                    change = Minus (Raw (field meta ''regularMarketPrice''))
                                   (Raw (field meta ''previousClose'')),
                    changePercent =
                      Times (Divide (Minus (Raw (field meta ''regularMarketPrice''))
                                           (Raw (field meta ''previousClose'')))
                                    (Raw (field meta ''previousClose'')))
                            (Num 100),
                    timestamp = stamp,
                    source = ''yahoo_finance'' \<rparr>))))))"

text \<open>\<^verbatim>\<open>FinnhubAPI.getStockData\<close>.\<close>

definition finnhub_getStockData :: "string \<Rightarrow> string \<Rightarrow> fetch_result \<Rightarrow> js_error + quote" where
  "finnhub_getStockData stamp ticker net =
     rethrow ''Finnhub API error: ''
       (and_then (reply net) (\<lambda>data.
        and_then (member (Some data) ''error'') (\<lambda>err.
          if truthy err then Inl (ErrorOf (the err))
          else Inr \<lparr> symbol = Some (JStr ticker),
                     price = Raw (field (Some data) ''c''),
                     open = Raw (field (Some data) ''o''),
                     high = Raw (field (Some data) ''h''),
                     low = Raw (field (Some data) ''l''),
                     volume = None,
                     change = Raw (field (Some data) ''d''),
                     changePercent = Raw (field (Some data) ''dp''),
                     timestamp = stamp,
                     source = ''finnhub'' \<rparr>)))"

text \<open>The fields of \<^verbatim>\<open>StockDataClient\<close>: the two \<^verbatim>\<open>Map\<close>s and the cache duration. (The
  three provider clients hold nothing that changes.)\<close>

record stock_client =
  quote_cache :: "(string, quote) js_map"
  lastFetchTime :: "(string, int) js_map"
  CACHE_DURATION :: int

definition new_StockDataClient :: stock_client where
  "new_StockDataClient = \<lparr> quote_cache = [], lastFetchTime = [], CACHE_DURATION = 60000 \<rparr>"

text \<open>
  \<^verbatim>\<open>getStockPrice\<close>. \<open>cached\<close> is the cache check at the top; \<open>fetch_chain\<close> is the nested
  \<^verbatim>\<open>try\<close>: Alpha Vantage, then Yahoo Finance, then the error that names the symbol (the
  function throws nothing else, so \<open>Inl\<close> carries the message of that error);
  \<open>remember\<close> is the pair of \<^verbatim>\<open>set\<close> calls. \<open>alpha\<close> and \<open>yahoo\<close> are what \<^verbatim>\<open>fetch\<close> does for
  each provider if it is called.
\<close>

definition cached :: "int \<Rightarrow> stock_client \<Rightarrow> string \<Rightarrow> quote option" where
  "cached now c cacheKey =
     (case (map_get (quote_cache c) cacheKey, map_get (lastFetchTime c) cacheKey) of
        (Some cachedData, Some lastFetch) \<Rightarrow>
          if now - lastFetch < CACHE_DURATION c then Some cachedData else None
      | _ \<Rightarrow> None)"

definition fetch_chain :: "string \<Rightarrow> string \<Rightarrow> fetch_result \<Rightarrow> fetch_result \<Rightarrow> string + quote" where
  "fetch_chain stamp ticker alpha yahoo =
     (case alphaVantage_getStockData stamp ticker alpha of
        Inr data \<Rightarrow> Inr data
      | Inl error \<Rightarrow>
          (case yahooFinance_getStockData stamp ticker yahoo of
             Inr data \<Rightarrow> Inr data
           | Inl error2 \<Rightarrow> Inl (''Unable to fetch data for '' @ ticker)))"

definition remember :: "int \<Rightarrow> string \<Rightarrow> quote \<Rightarrow> stock_client \<Rightarrow> stock_client" where
  "remember now cacheKey data c =
     c\<lparr> quote_cache := map_set cacheKey data (quote_cache c),
        lastFetchTime := map_set cacheKey now (lastFetchTime c) \<rparr>"

definition getStockPrice ::
  "int \<Rightarrow> string \<Rightarrow> fetch_result \<Rightarrow> fetch_result \<Rightarrow> stock_client \<Rightarrow> string \<Rightarrow>
   (string + quote) \<times> stock_client"
where
  "getStockPrice now stamp alpha yahoo c ticker =
     (let cacheKey = ''stock_'' @ ticker
      in case cached now c cacheKey of
           Some cachedData \<Rightarrow> (Inr cachedData, c)
         | None \<Rightarrow>
             (case fetch_chain stamp ticker alpha yahoo of
                Inr data \<Rightarrow> (Inr data, remember now cacheKey data c)
              | Inl message \<Rightarrow> (Inl message, c)))"

text \<open>The chain as the specification words it: primary, secondary and tertiary quote
  provider in order, the first success returned, an error naming the symbol when all
  three fail.\<close>

definition three_provider_chain ::
  "string \<Rightarrow> string \<Rightarrow> fetch_result \<Rightarrow> fetch_result \<Rightarrow> fetch_result \<Rightarrow> string + quote" where
  "three_provider_chain stamp ticker alpha yahoo finnhub =
     (case alphaVantage_getStockData stamp ticker alpha of
        Inr data \<Rightarrow> Inr data
      | Inl error \<Rightarrow>
          (case yahooFinance_getStockData stamp ticker yahoo of
             Inr data \<Rightarrow> Inr data
           | Inl error2 \<Rightarrow>
               (case finnhub_getStockData stamp ticker finnhub of
                  Inr data \<Rightarrow> Inr data
                | Inl error3 \<Rightarrow> Inl (''Unable to fetch data for '' @ ticker))))"

text \<open>
  \<^verbatim>\<open>getMultipleStockPrices\<close>. Every \<^verbatim>\<open>getStockPrice\<close> is started before any of them
  resumes, so each one checks the cache of the client as it was at the call; a request
  is a symbol with what \<^verbatim>\<open>fetch\<close> does for it. An entry of the result is a quote or the
  marker \<^verbatim>\<open>{symbol, error}\<close>, stored under \<^verbatim>\<open>result.symbol\<close>: the string itself, or what the
  runtime's \<open>ToString\<close> makes of a value that is no string. The cache writes are
  applied in the order of the requests (the returned object does not depend on the
  order in which the fetches complete).
\<close>

datatype entry = Quote quote | ErrorMarker string string

definition property_key :: "(json option \<Rightarrow> string) \<Rightarrow> json option \<Rightarrow> string" where
  "property_key ToString v = (case v of Some (JStr s) \<Rightarrow> s | _ \<Rightarrow> ToString v)"

definition settled ::
  "int \<Rightarrow> string \<Rightarrow> stock_client \<Rightarrow> string \<times> fetch_result \<times> fetch_result \<Rightarrow> entry" where
  "settled now stamp c request =
     (case request of (ticker, alpha, yahoo) \<Rightarrow>
        (case fst (getStockPrice now stamp alpha yahoo c ticker) of
           Inr data \<Rightarrow> Quote data
         | Inl message \<Rightarrow> ErrorMarker ticker message))"

definition collect :: "(json option \<Rightarrow> string) \<Rightarrow> entry \<Rightarrow> (string, entry) js_map \<Rightarrow> (string, entry) js_map" where
  "collect ToString result data =
     (case result of
        ErrorMarker ticker message \<Rightarrow> map_set ticker (ErrorMarker ticker message) data
      | Quote q \<Rightarrow> map_set (property_key ToString (symbol q)) (Quote q) data)"

definition written ::
  "int \<Rightarrow> string \<Rightarrow> stock_client \<Rightarrow> string \<times> fetch_result \<times> fetch_result \<Rightarrow>
   stock_client \<Rightarrow> stock_client" where
  "written now stamp c request c' =
     (case request of (ticker, alpha, yahoo) \<Rightarrow>
        (case cached now c (''stock_'' @ ticker) of
           Some cachedData \<Rightarrow> c'
         | None \<Rightarrow>
             (case fetch_chain stamp ticker alpha yahoo of
                Inr data \<Rightarrow> remember now (''stock_'' @ ticker) data c'
              | Inl message \<Rightarrow> c')))"

definition getMultipleStockPrices ::
  "(json option \<Rightarrow> string) \<Rightarrow> int \<Rightarrow> string \<Rightarrow> stock_client \<Rightarrow>
   (string \<times> fetch_result \<times> fetch_result) list \<Rightarrow> (string, entry) js_map \<times> stock_client"
where
  "getMultipleStockPrices ToString now stamp c requests =
     (fold (collect ToString) (map (settled now stamp c) requests) [],
      fold (written now stamp c) requests c)"

text \<open>
  \<^verbatim>\<open>AlphaVantageAPI.getHistoricalData\<close> and \<^verbatim>\<open>getStockHistory\<close>. A timeframe outside
  \<^verbatim>\<open>functionMap\<close> makes \<^verbatim>\<open>timeKeyMap[functionMap[timeframe]]\<close> \<^verbatim>\<open>undefined\<close>, and
  \<^verbatim>\<open>data[undefined]\<close> reads the property named \<^verbatim>\<open>"undefined"\<close>. \<open>entries\<close> is
  \<^verbatim>\<open>Object.entries\<close>, which throws on \<^verbatim>\<open>null\<close> and \<^verbatim>\<open>undefined\<close>; \<open>bar_of\<close> is the body of the
  \<^verbatim>\<open>forEach\<close>, which throws when an entry's value is \<^verbatim>\<open>null\<close>.
\<close>

record bar =
  bar_date :: string
  bar_open :: jsval
  bar_high :: jsval
  bar_low :: jsval
  bar_close :: jsval
  bar_volume :: jsval






fun for_each :: "('a \<Rightarrow> js_error + 'b) \<Rightarrow> 'a list \<Rightarrow> js_error + 'b list" where
  "for_each f [] = Inr []"
| "for_each f (x # xs) =
     and_then (f x) (\<lambda>y. and_then (for_each f xs) (\<lambda>ys. Inr (y # ys)))"



text \<open>\<^verbatim>\<open>getStockPrice\<close> for one symbol after the other, each call run to completion and
  each provider answering \<open>net\<close>; and an Alpha Vantage reply that carries a quote.\<close>

definition price_all ::
  "int \<Rightarrow> string \<Rightarrow> fetch_result \<Rightarrow> string list \<Rightarrow> stock_client \<Rightarrow> stock_client" where
  "price_all now stamp net tickers c =
     fold (\<lambda>ticker c'. snd (getStockPrice now stamp net net c' ticker)) tickers c"

definition quoted :: fetch_result where
  "quoted = Responds \<lparr> status = 200, statusText = ''OK'',
      body = Some (JObj [(''Global Quote'', JObj [(''05. price'', JStr ''1.00'')])]) \<rparr>"

text \<open>Replies of the providers, for running examples: Alpha Vantage out of quota and
  rejecting the call, Yahoo Finance without and with a result (whose \<^verbatim>\<open>meta.symbol\<close> is in
  upper case), a quote of Finnhub, a daily time series of \<open>n\<close> entries, a reply with a
  property named \<^verbatim>\<open>undefined\<close>, and the provider's error reply.\<close>

definition alpha_rate_limited :: fetch_result where
  "alpha_rate_limited = Responds \<lparr> status = 200, statusText = ''OK'',
      body = Some (JObj [(''Note'', JStr ''Thank you for using Alpha Vantage!'')]) \<rparr>"

definition yahoo_not_found :: fetch_result where
  "yahoo_not_found = Responds \<lparr> status = 404, statusText = ''Not Found'',
      body = Some (JObj [(''chart'', JObj [(''result'', JNull),
                 (''error'', JObj [(''code'', JStr ''Not Found'')])])]) \<rparr>"

definition yahoo_AAPL :: fetch_result where
  "yahoo_AAPL = Responds \<lparr> status = 200, statusText = ''OK'',
      body = Some (JObj [(''chart'', JObj [(''result'', JArr [JObj [(''meta'',
                 JObj [(''symbol'', JStr ''AAPL''), (''regularMarketPrice'', JNum 150),
                       (''previousClose'', JNum 149)])]])])]) \<rparr>"

definition finnhub_quote :: fetch_result where
  "finnhub_quote = Responds \<lparr> status = 200, statusText = ''OK'',
      body = Some (JObj [(''c'', JNum 150), (''o'', JNum 149), (''h'', JNum 151),
                         (''l'', JNum 148), (''d'', JNum 1), (''dp'', JNum (2 / 3))]) \<rparr>"




section \<open>The news clients (\<^verbatim>\<open>api-clients.js\<close>)\<close>

subsection \<open>\<^verbatim>\<open>NewsAPIClient\<close>\<close>

record news_options =
  sortBy :: "string option"
  pageSize :: "nat option"
  language :: "string option"

text \<open>The query parameters of the request to \<^verbatim>\<open>/everything\<close>.\<close>

record news_request =
  req_q :: string
  req_apiKey :: string
  req_sortBy :: string
  req_pageSize :: nat
  req_language :: string

text \<open>The fields \<^verbatim>\<open>apiKey\<close>, \<^verbatim>\<open>_rateLimitedUntil\<close> and \<^verbatim>\<open>_lastWarnAt\<close> (times in
  milliseconds).\<close>

record news_api_client =
  news_apiKey :: string
  rateLimitedUntil :: int
  lastWarnAt :: int

definition new_NewsAPIClient :: "string \<Rightarrow> news_api_client" where
  "new_NewsAPIClient key = \<lparr> news_apiKey = key, rateLimitedUntil = 0, lastWarnAt = 0 \<rparr>"

definition six_hours :: int where
  "six_hours = 6 * 60 * 60 * 1000"

definition five_minutes :: int where
  "five_minutes = 5 * 60 * 1000"

text \<open>\<^verbatim>\<open>(data?.message || '').toString()\<close>: a string as it is, what the runtime's
  \<open>ToString\<close> makes of another truthy value, the empty string otherwise.\<close>

definition message_text :: "(json option \<Rightarrow> string) \<Rightarrow> json \<Rightarrow> string" where
  "message_text ToString data =
     (let m = field (Some data) ''message''
      in if truthy m then property_key ToString m else [])"

text \<open>The heuristic on the lower-cased message.\<close>

definition rate_limit_message :: "string \<Rightarrow> bool" where
  "rate_limit_message msg =
     (let lower = toLowerCase msg
      in str_includes lower ''too many requests'' \<or> str_includes lower ''rate''
         \<or> str_includes lower ''limit'')"

text \<open>An object literal; a property whose value is \<^verbatim>\<open>undefined\<close> is left out (reading it
  gives \<^verbatim>\<open>undefined\<close> either way).\<close>

fun object :: "(string \<times> json option) list \<Rightarrow> (string \<times> json) list" where
  "object [] = []"
| "object ((k, None) # ps) = object ps"
| "object ((k, Some v) # ps) = (k, v) # object ps"

text \<open>The callback of \<^verbatim>\<open>data.articles.map\<close>; \<^verbatim>\<open>article.title\<close> throws on \<^verbatim>\<open>null\<close>.\<close>

definition source_name :: "json \<Rightarrow> json" where
  "source_name article =
     (let src = field (Some article) ''source'';
          name = (case src of None \<Rightarrow> None | Some JNull \<Rightarrow> None | Some v \<Rightarrow> field src ''name'')
      in if truthy name then the name else JStr ''Unknown'')"

definition mapped_article :: "json \<Rightarrow> js_error + json" where
  "mapped_article article =
     and_then (member (Some article) ''title'') (\<lambda>t.
       Inr (JObj (object
         [(''title'', t),
          (''description'', field (Some article) ''description''),
          (''url'', field (Some article) ''url''),
          (''urlToImage'', field (Some article) ''urlToImage''),
          (''publishedAt'', field (Some article) ''publishedAt''),
          (''source'', Some (source_name article)),
          (''content'', field (Some article) ''content'')])))"

text \<open>The two throttled warnings: the one of the \<^verbatim>\<open>catch\<close> block reads the clock
  again (\<open>later\<close>), the ones of the \<^verbatim>\<open>try\<close> block use \<open>now\<close>.\<close>

definition warn_at :: "int \<Rightarrow> news_api_client \<Rightarrow> news_api_client" where
  "warn_at t c = (if t - lastWarnAt c > five_minutes then c\<lparr>lastWarnAt := t\<rparr> else c)"

text \<open>
  \<^verbatim>\<open>NewsAPIClient.getNews\<close>. \<open>now\<close> is \<^verbatim>\<open>Date.now()\<close> at the entry, \<open>later\<close> is
  \<^verbatim>\<open>Date.now()\<close> once the reply is there, \<open>net\<close> is what \<^verbatim>\<open>fetch\<close> does if it is called. The
  result is the returned array, the client afterwards, and the request handed to
  \<^verbatim>\<open>fetch\<close> (\<open>None\<close> when \<^verbatim>\<open>fetch\<close> was not called).
\<close>

definition newsApi_getNews ::
  "(json option \<Rightarrow> string) \<Rightarrow> int \<Rightarrow> int \<Rightarrow> fetch_result \<Rightarrow> news_api_client \<Rightarrow> string \<Rightarrow>
   news_options \<Rightarrow> json list \<times> news_api_client \<times> news_request option"
where
  "newsApi_getNews ToString now later net c query options =
     (if now < rateLimitedUntil c then ([], c, None)
      else
        let request =
              \<lparr> req_q = query, req_apiKey = news_apiKey c,
                req_sortBy = (if no_key (sortBy options) then ''publishedAt''
                              else the (sortBy options)),
                req_pageSize = (case pageSize options of None \<Rightarrow> 10
                                | Some n \<Rightarrow> if n = 0 then 10 else n),
                req_language = (if no_key (language options) then ''en''
                                else the (language options)) \<rparr>;
            caught = ([], warn_at later c, Some request)
        in case reply net of
             Inl e \<Rightarrow> caught
           | Inr data \<Rightarrow>
               (case member (Some data) ''status'' of
                  Inl e \<Rightarrow> caught
                | Inr st \<Rightarrow>
                    if st \<noteq> Some (JStr ''ok'') then
                      (if rate_limit_message (message_text ToString data)
                       then ([], warn_at now (c\<lparr>rateLimitedUntil := later + six_hours\<rparr>),
                             Some request)
                       else ([], warn_at now c, Some request))
                    else
                      (case field (Some data) ''articles'' of
                         Some (JArr xs) \<Rightarrow>
                           (case for_each mapped_article xs of
                              Inr articles \<Rightarrow> (articles, c, Some request)
                            | Inl e \<Rightarrow> caught)
                       | _ \<Rightarrow> caught)))"

definition isRateLimited :: "int \<Rightarrow> news_api_client \<Rightarrow> bool" where
  "isRateLimited now c = (now < rateLimitedUntil c)"

text \<open>A reply whose body signals throttling: a status other than \<^verbatim>\<open>'ok'\<close> with a
  message that matches the heuristic.\<close>

definition throttled :: "(json option \<Rightarrow> string) \<Rightarrow> fetch_result \<Rightarrow> bool" where
  "throttled ToString net =
     (case reply net of
        Inl e \<Rightarrow> False
      | Inr data \<Rightarrow>
          (case member (Some data) ''status'' of
             Inl e \<Rightarrow> False
           | Inr st \<Rightarrow> st \<noteq> Some (JStr ''ok'')
                       \<and> rate_limit_message (message_text ToString data)))"

text \<open>A run of calls on one client: each with its two clock readings, what \<^verbatim>\<open>fetch\<close> does
  for it, its query and options; the outputs are the arrays returned and the requests
  sent.\<close>

fun news_calls ::
  "(json option \<Rightarrow> string) \<Rightarrow> (int \<times> int \<times> fetch_result \<times> string \<times> news_options) list \<Rightarrow>
   news_api_client \<Rightarrow> (json list \<times> news_request option) list \<times> news_api_client"
where
  "news_calls ToString [] c = ([], c)"
| "news_calls ToString ((now, later, net, query, options) # calls) c =
     (case newsApi_getNews ToString now later net c query options of
        (articles, c', req) \<Rightarrow>
          (case news_calls ToString calls c' of
             (out, c'') \<Rightarrow> ((articles, req) # out, c'')))"

subsection \<open>\<^verbatim>\<open>NewsDataClient.getNews\<close> and its cache\<close>

text \<open>
  The fields of \<^verbatim>\<open>NewsDataClient\<close> that \<^verbatim>\<open>getNews\<close> reads and writes: the primary
  provider's client and the \<^verbatim>\<open>Map\<close> from cache keys to \<^verbatim>\<open>{data, timestamp}\<close>. (The
  \<^verbatim>\<open>catch\<close> block of \<^verbatim>\<open>getNews\<close>, which alone uses \<^verbatim>\<open>_lastWarnAt\<close>, is not reached:
  \<^verbatim>\<open>NewsAPIClient.getNews\<close> catches what it throws.)
\<close>

record cached_news =
  cached_data :: "json list"
  cached_at :: int

record news_client =
  newsApi :: news_api_client
  news_cache :: "(string, cached_news) js_map"

definition new_NewsDataClient :: "string \<Rightarrow> news_client" where
  "new_NewsDataClient key = \<lparr> newsApi = new_NewsAPIClient key, news_cache = [] \<rparr>"

text \<open>The readings of \<^verbatim>\<open>Date.now()\<close> during one call of \<^verbatim>\<open>getNews\<close>: at the cache check,
  at the entry of the provider's \<^verbatim>\<open>getNews\<close>, once its reply is there, in
  \<^verbatim>\<open>isRateLimited()\<close>, and at the \<^verbatim>\<open>cache.set\<close>.\<close>

record clock =
  at_entry :: int
  at_call :: int
  at_reply :: int
  at_check :: int
  at_store :: int

text \<open>The cache key \<^verbatim>\<open>news_<query>_<JSON.stringify(options)>\<close>; \<open>stringify\<close> is the
  runtime's \<^verbatim>\<open>JSON.stringify\<close> on the options.\<close>

definition news_cacheKey :: "(news_options \<Rightarrow> string) \<Rightarrow> string \<Rightarrow> news_options \<Rightarrow> string" where
  "news_cacheKey stringify query options = ''news_'' @ query @ ''_'' @ stringify options"

definition news_store :: "int \<Rightarrow> string \<Rightarrow> json list \<Rightarrow> news_client \<Rightarrow> news_client" where
  "news_store t cacheKey d c =
     c\<lparr>news_cache := map_set cacheKey \<lparr>cached_data = d, cached_at = t\<rparr> (news_cache c)\<rparr>"

text \<open>
  \<^verbatim>\<open>NewsDataClient.getNews\<close>. \<open>net\<close> is what \<^verbatim>\<open>fetch\<close> does for the primary provider if it is
  called; \<open>alt\<close> and \<open>rss\<close> are the arrays that
  \<^verbatim>\<open>currentApi.getNews(query, options).catch(() => [])\<close> and
  \<^verbatim>\<open>getNewsFromGoogleRss(query, options).catch(() => [])\<close> resolve to if they are called.
  Every path that passes the cache check ends in a \<^verbatim>\<open>cache.set\<close>; nothing deletes from
  the cache.
\<close>

definition newsData_getNews ::
  "(json option \<Rightarrow> string) \<Rightarrow> (news_options \<Rightarrow> string) \<Rightarrow> clock \<Rightarrow> fetch_result \<Rightarrow>
   json list \<Rightarrow> json list \<Rightarrow> news_client \<Rightarrow> string \<Rightarrow> news_options \<Rightarrow> json list \<times> news_client"
where
  "newsData_getNews ToString stringify t net alt rss c query options =
     (let cacheKey = news_cacheKey stringify query options;
          fetched =
            (case newsApi_getNews ToString (at_call t) (at_reply t) net (newsApi c) query options of
               (d, api, req) \<Rightarrow>
                 if d = [] \<and> isRateLimited (at_check t) api then
                   (if alt \<noteq> [] then (alt, news_store (at_store t) cacheKey alt (c\<lparr>newsApi := api\<rparr>))
                    else (rss, news_store (at_store t) cacheKey rss (c\<lparr>newsApi := api\<rparr>)))
                 else (d, news_store (at_store t) cacheKey d (c\<lparr>newsApi := api\<rparr>)))
      in case map_get (news_cache c) cacheKey of
           Some cachedData \<Rightarrow>
             if at_entry t - cached_at cachedData < 300000 then (cached_data cachedData, c)
             else fetched
         | None \<Rightarrow> fetched)"

text \<open>\<^verbatim>\<open>getNews\<close> for one query after the other, each call run to completion with the same
  options, clock readings and replies.\<close>

definition news_all ::
  "(json option \<Rightarrow> string) \<Rightarrow> (news_options \<Rightarrow> string) \<Rightarrow> clock \<Rightarrow> fetch_result \<Rightarrow>
   json list \<Rightarrow> json list \<Rightarrow> news_options \<Rightarrow> string list \<Rightarrow> news_client \<Rightarrow> news_client"
where
  "news_all ToString stringify t net alt rss options qs c =
     fold (\<lambda>query c'. snd (newsData_getNews ToString stringify t net alt rss c' query options)) qs c"

subsection \<open>\<^verbatim>\<open>NewsDataClient.searchForStockNews\<close>\<close>

text \<open>
  A value as a \<^verbatim>\<open>Set\<close> compares it: \<^verbatim>\<open>undefined\<close>, \<^verbatim>\<open>null\<close>, a boolean, a number or a string
  by its value, an object or an array by its identity (a reference, here a number).
\<close>

datatype set_key =
    KUndefined
  | KNull
  | KBool bool
  | KNum rat
  | KStr string
  | KRef nat

text \<open>
  An article as \<^verbatim>\<open>searchForStockNews\<close> reads it: \<open>title\<close> is the title as the \<^verbatim>\<open>Set\<close> of seen
  titles compares it, \<open>publishedAt\<close> is the time value of
  \<^verbatim>\<open>new Date(article.publishedAt)\<close>, the other fields are the values of the article.
\<close>

record article =
  title :: set_key
  description :: "json option"
  url :: "json option"
  urlToImage :: "json option"
  publishedAt :: date
  article_source :: "json option"
  content :: "json option"


definition search_options :: news_options where
  "search_options = \<lparr> sortBy = Some ''publishedAt'', pageSize = Some 10, language = None \<rparr>"















definition too_many_requests :: fetch_result where
  "too_many_requests = Responds \<lparr> status = 429, statusText = ''Too Many Requests'',
      body = Some (JObj [(''status'', JStr ''error''), (''code'', JStr ''rateLimited''),
                         (''message'', JStr ''You have made too many requests recently.'')]) \<rparr>"

definition no_articles :: fetch_result where
  "no_articles = Responds \<lparr> status = 200, statusText = ''OK'',
      body = Some (JObj [(''status'', JStr ''ok''), (''articles'', JArr [])]) \<rparr>"

section \<open>The three caches\<close>

lemma keys_map_set:
  "map fst (map_set k v m) = (if k \<in> set (map fst m) then map fst m else map fst m @ [k])"
  by (induction m) force+

lemma length_map_set:
  "length (map_set k v m) = (if k \<in> set (map fst m) then length m else Suc (length m))"
  by (induction m) force+

lemma length_map_set_le: "length (map_set k v m) \<le> Suc (length m)"
  by (simp add: length_map_set)

lemma storeInCache_at_capacity:
  assumes "maxCacheSize s \<le> map_size (cache s)" and "cache s = (k0, e0) # rest"
  shows "cache (storeInCache now key v s) = map_set key (cache_entry now v) rest"
  using assms by (simp add: storeInCache_def first_key_def)

lemma storeInCache_below_capacity:
  assumes "map_size (cache s) < maxCacheSize s"
  shows "cache (storeInCache now key v s) = map_set key (cache_entry now v) (cache s)"
  using assms by (simp add: storeInCache_def)

lemma maxCacheSize_storeInCache [simp]:
  "maxCacheSize (storeInCache now key v s) = maxCacheSize s"
  by (simp add: storeInCache_def Let_def)

lemma storeInCache_size:
  assumes "map_size (cache s) \<le> maxCacheSize s" and "0 < maxCacheSize s"
  shows "map_size (cache (storeInCache now key v s)) \<le> maxCacheSize s"
proof (cases "map_size (cache s) < maxCacheSize s")
  case True
  then have "cache (storeInCache now key v s) = map_set key (cache_entry now v) (cache s)"
    by (rule storeInCache_below_capacity)
  moreover have "length (map_set key (cache_entry now v) (cache s)) \<le> Suc (length (cache s))"
    by (rule length_map_set_le)
  ultimately show ?thesis using True by (simp add: map_size_def)
next
  case False
  with assms have full: "map_size (cache s) = maxCacheSize s" by simp
  with assms(2) obtain k0 e0 rest where c: "cache s = (k0, e0) # rest"
    by (cases "cache s") (auto simp: map_size_def)
  from full have "maxCacheSize s \<le> map_size (cache s)" by simp
  then have "cache (storeInCache now key v s) = map_set key (cache_entry now v) rest"
    using c by (rule storeInCache_at_capacity)
  moreover have "length (map_set key (cache_entry now v) rest) \<le> Suc (length rest)"
    by (rule length_map_set_le)
  ultimately show ?thesis using full c by (simp add: map_size_def)
qed

lemma fold_storeInCache_size:
  assumes "map_size (cache s) \<le> maxCacheSize s" and "0 < maxCacheSize s"
  shows "map_size (cache (fold (\<lambda>p. storeInCache (fst p) (fst (snd p)) (snd (snd p))) puts s))
           \<le> maxCacheSize s
         \<and> maxCacheSize (fold (\<lambda>p. storeInCache (fst p) (fst (snd p)) (snd (snd p))) puts s)
           = maxCacheSize s"
  using assms
proof (induction puts arbitrary: s)
  case Nil
  then show ?case by simp
next
  case (Cons p puts)
  let ?s' = "storeInCache (fst p) (fst (snd p)) (snd (snd p)) s"
  have "map_size (cache ?s') \<le> maxCacheSize ?s'" "0 < maxCacheSize ?s'"
    using Cons.prems by (simp_all add: storeInCache_size)
  from Cons.IH[OF this] show ?case by simp
qed

lemma undec_dec: "foldl (\<lambda>acc c. 10 * acc + (of_char c - 48)) 0 (dec n) = (n::nat)"
proof (induction n rule: dec.induct)
  case (1 n)
  show ?case
  proof (cases "n < 10")
    case True
    then show ?thesis by (subst dec.simps) (simp add: digit_char_def)
  next
    case False
    with 1 have "foldl (\<lambda>acc c. 10 * acc + (of_char c - 48)) 0 (dec (n div 10)) = n div 10"
      by simp
    with False show ?thesis by (subst dec.simps) (simp add: digit_char_def)
  qed
qed

lemma inj_dec: "inj dec"
  by (rule inj_on_inverseI[where g = "foldl (\<lambda>acc c. 10 * acc + (of_char c - 48)) 0"])
     (rule undec_dec)

lemma map_set_new: "k \<notin> set (map fst m) \<Longrightarrow> map_set k v m = m @ [(k, v)]"
  by (induction m) auto

lemma keys_kept: "set (map fst m) \<subseteq> set (map fst (map_set k v m))"
  by (auto simp: keys_map_set)

subsection \<open>The stock cache\<close>

lemma getStockPrice_keys_kept:
  "set (map fst (quote_cache c))
     \<subseteq> set (map fst (quote_cache (snd (getStockPrice now stamp alpha yahoo c ticker))))"
  using keys_kept[of "quote_cache c" "''stock_'' @ ticker"]
  by (auto simp: getStockPrice_def remember_def Let_def split: option.splits sum.splits)

lemma getStockPrice_new_key:
  assumes "''stock_'' @ ticker \<notin> set (map fst (quote_cache c))"
    and "fetch_chain stamp ticker alpha yahoo = Inr q"
  shows "quote_cache (snd (getStockPrice now stamp alpha yahoo c ticker))
           = quote_cache c @ [(''stock_'' @ ticker, q)]"
proof -
  from assms(1) have "map_get (quote_cache c) (''stock_'' @ ticker) = None"
    by (simp add: map_get_def map_of_eq_None_iff)
  then have miss: "cached now c (''stock_'' @ ticker) = None"
    by (simp add: cached_def)
  with assms(2) have "quote_cache (snd (getStockPrice now stamp alpha yahoo c ticker))
      = map_set (''stock_'' @ ticker) q (quote_cache c)"
    by (simp add: getStockPrice_def remember_def Let_def)
  also have "\<dots> = quote_cache c @ [(''stock_'' @ ticker, q)]"
    using assms(1) by (rule map_set_new)
  finally show ?thesis .
qed

lemma price_all_size:
  assumes "distinct tickers"
    and "\<forall>t \<in> set tickers. ''stock_'' @ t \<notin> set (map fst (quote_cache c))"
    and "\<forall>t \<in> set tickers. \<exists>q. fetch_chain stamp t net net = Inr q"
  shows "map_size (quote_cache (price_all now stamp net tickers c))
           = map_size (quote_cache c) + length tickers"
  using assms
proof (induction tickers arbitrary: c)
  case Nil
  then show ?case by (simp add: price_all_def)
next
  case (Cons t ts)
  let ?c' = "snd (getStockPrice now stamp net net c t)"
  from Cons.prems obtain q where "fetch_chain stamp t net net = Inr q" by auto
  with Cons.prems have c': "quote_cache ?c' = quote_cache c @ [(''stock_'' @ t, q)]"
    using getStockPrice_new_key[of t c stamp net net q now] by simp
  have "\<forall>u \<in> set ts. ''stock_'' @ u \<notin> set (map fst (quote_cache ?c'))"
    using Cons.prems c' by auto
  moreover have "distinct ts" using Cons.prems by simp
  moreover have "\<forall>u \<in> set ts. \<exists>q. fetch_chain stamp u net net = Inr q"
    using Cons.prems by simp
  ultimately have "map_size (quote_cache (price_all now stamp net ts ?c'))
           = map_size (quote_cache ?c') + length ts"
    using Cons.IH by blast
  then show ?case using c' by (simp add: price_all_def map_size_def)
qed

lemma fetch_chain_quoted: "\<exists>q. fetch_chain stamp ticker quoted quoted = Inr q"
  by (simp add: fetch_chain_def alphaVantage_getStockData_def quoted_def reply_def and_then_def
      rethrow_def)

subsection \<open>The news cache\<close>

lemma news_key_inj:
  "news_cacheKey stringify q options = news_cacheKey stringify q' options \<Longrightarrow> q = q'"
  by (simp add: news_cacheKey_def)

lemma news_cache_fetched:
  "\<exists>d api. (case newsApi_getNews ToString (at_call t) (at_reply t) net (newsApi c) query options of
       (d, api, req) \<Rightarrow>
         if d = [] \<and> isRateLimited (at_check t) api then
           (if alt \<noteq> [] then (alt, news_store (at_store t) k alt (c\<lparr>newsApi := api\<rparr>))
            else (rss, news_store (at_store t) k rss (c\<lparr>newsApi := api\<rparr>)))
         else (d, news_store (at_store t) k d (c\<lparr>newsApi := api\<rparr>)))
     = (d, news_store (at_store t) k d (c\<lparr>newsApi := api\<rparr>))"
  by (cases "newsApi_getNews ToString (at_call t) (at_reply t) net (newsApi c) query options")
     auto

lemma newsData_getNews_cache:
  "news_cache (snd (newsData_getNews ToString stringify t net alt rss c query options))
     = news_cache c
   \<or> (\<exists>e. news_cache (snd (newsData_getNews ToString stringify t net alt rss c query options))
            = map_set (news_cacheKey stringify query options) e (news_cache c))"
  using news_cache_fetched[where ToString = ToString and t = t and net = net and c = c
      and query = query and options = options and alt = alt and rss = rss
      and k = "news_cacheKey stringify query options"]
  by (auto simp: newsData_getNews_def Let_def news_store_def split: option.splits)

lemma newsData_getNews_keys_kept:
  "set (map fst (news_cache c))
     \<subseteq> set (map fst (news_cache
           (snd (newsData_getNews ToString stringify t net alt rss c query options))))"
proof (cases "news_cache (snd (newsData_getNews ToString stringify t net alt rss c query options))
     = news_cache c")
  case True
  then show ?thesis by simp
next
  case False
  with newsData_getNews_cache[of ToString stringify t net alt rss c query options]
  obtain e where "news_cache (snd (newsData_getNews ToString stringify t net alt rss c query options))
            = map_set (news_cacheKey stringify query options) e (news_cache c)"
    by blast
  then show ?thesis by (simp only: keys_kept)
qed

lemma newsData_getNews_new_key:
  assumes "news_cacheKey stringify query options \<notin> set (map fst (news_cache c))"
  shows "\<exists>e. news_cache (snd (newsData_getNews ToString stringify t net alt rss c query options))
           = news_cache c @ [(news_cacheKey stringify query options, e)]"
proof -
  from assms have miss: "map_get (news_cache c) (news_cacheKey stringify query options) = None"
    by (simp add: map_get_def map_of_eq_None_iff)
  from news_cache_fetched[where ToString = ToString and t = t and net = net and c = c
      and query = query and options = options and alt = alt and rss = rss
      and k = "news_cacheKey stringify query options"]
  obtain d api where "newsData_getNews ToString stringify t net alt rss c query options
      = (d, news_store (at_store t) (news_cacheKey stringify query options) d (c\<lparr>newsApi := api\<rparr>))"
    using miss by (auto simp: newsData_getNews_def Let_def)
  then have "news_cache (snd (newsData_getNews ToString stringify t net alt rss c query options))
      = map_set (news_cacheKey stringify query options)
          \<lparr>cached_data = d, cached_at = at_store t\<rparr> (news_cache c)"
    by (simp add: news_store_def)
  also have "\<dots> = news_cache c @ [(news_cacheKey stringify query options,
                                    \<lparr>cached_data = d, cached_at = at_store t\<rparr>)]"
    using assms by (rule map_set_new)
  finally show ?thesis by blast
qed

lemma news_all_size:
  assumes "distinct qs"
    and "\<forall>q \<in> set qs. news_cacheKey stringify q options \<notin> set (map fst (news_cache c))"
  shows "map_size (news_cache (news_all ToString stringify t net alt rss options qs c))
           = map_size (news_cache c) + length qs"
  using assms
proof (induction qs arbitrary: c)
  case Nil
  then show ?case by (simp add: news_all_def)
next
  case (Cons q qs)
  let ?c' = "snd (newsData_getNews ToString stringify t net alt rss c q options)"
  from Cons.prems obtain e where
    c': "news_cache ?c' = news_cache c @ [(news_cacheKey stringify q options, e)]"
    using newsData_getNews_new_key[of stringify q options c ToString t net alt rss] by auto
  have "\<forall>u \<in> set qs. news_cacheKey stringify u options \<notin> set (map fst (news_cache ?c'))"
    using Cons.prems c' by (auto dest: news_key_inj)
  moreover have "distinct qs" using Cons.prems by simp
  ultimately have "map_size (news_cache (news_all ToString stringify t net alt rss options qs ?c'))
           = map_size (news_cache ?c') + length qs"
    using Cons.IH by blast
  then show ?case using c' by (simp add: news_all_def map_size_def)
qed

subsection \<open>Claim C5\<close>

text \<open>
  Claim C5, as the code has it. Only the cache of the LLM processor is bounded: from the
  constructor's state every sequence of \<^verbatim>\<open>storeInCache\<close> calls leaves at most
  \<open>maxCacheSize = 100\<close> entries, and one call keeps any bound it starts within. A call at
  capacity removes exactly the first entry of the \<^verbatim>\<open>Map\<close>, which is the earliest-inserted
  key still present, since a new key goes to the end and a key that is present keeps its
  place; below capacity nothing is removed. The caches of the stock client and of the
  news client have no size limit and nothing is ever removed from them: a call of
  \<^verbatim>\<open>getStockPrice\<close> or of \<^verbatim>\<open>NewsDataClient.getNews\<close> keeps every key that is there, and quotes
  for \<open>n\<close> different symbols that are not cached, or news for \<open>n\<close> different queries
  that are not cached, leave \<open>n\<close> entries more.
\<close>

theorem storeInCache_bounded_fifo:
  "map_size (cache (fold (\<lambda>p. storeInCache (fst p) (fst (snd p)) (snd (snd p))) puts constructor))
     \<le> maxCacheSize constructor
   \<and> maxCacheSize constructor = 100
   \<and> (map_size (cache s) \<le> maxCacheSize s \<and> 0 < maxCacheSize s
        \<longrightarrow> map_size (cache (storeInCache now key v s)) \<le> maxCacheSize s)
   \<and> (maxCacheSize s \<le> map_size (cache s) \<and> cache s = (k0, e0) # rest
        \<longrightarrow> cache (storeInCache now key v s) = map_set key (cache_entry now v) rest)
   \<and> (map_size (cache s) < maxCacheSize s
        \<longrightarrow> cache (storeInCache now key v s) = map_set key (cache_entry now v) (cache s))
   \<and> map fst (map_set key e m) = (if key \<in> set (map fst m) then map fst m else map fst m @ [key])
   \<and> set (map fst (quote_cache c))
        \<subseteq> set (map fst (quote_cache (snd (getStockPrice now' stamp alpha yahoo c ticker))))
   \<and> (distinct tickers
        \<and> (\<forall>t \<in> set tickers. ''stock_'' @ t \<notin> set (map fst (quote_cache c)))
        \<and> (\<forall>t \<in> set tickers. \<exists>q. fetch_chain stamp t net net = Inr q)
        \<longrightarrow> map_size (quote_cache (price_all now' stamp net tickers c))
              = map_size (quote_cache c) + length tickers)
   \<and> set (map fst (news_cache nc))
        \<subseteq> set (map fst (news_cache
              (snd (newsData_getNews ToString stringify clk nnet alt rss nc query options))))
   \<and> (distinct qs
        \<and> (\<forall>q \<in> set qs. news_cacheKey stringify q options \<notin> set (map fst (news_cache nc)))
        \<longrightarrow> map_size (news_cache (news_all ToString stringify clk nnet alt rss options qs nc))
              = map_size (news_cache nc) + length qs)"
proof (intro conjI impI)
  have "map_size (cache constructor) \<le> maxCacheSize constructor" "0 < maxCacheSize constructor"
    by (simp_all add: constructor_def map_size_def)
  from fold_storeInCache_size[OF this]
  show "map_size (cache (fold (\<lambda>p. storeInCache (fst p) (fst (snd p)) (snd (snd p))) puts constructor))
     \<le> maxCacheSize constructor" by simp
next
  show "maxCacheSize constructor = 100" by (simp add: constructor_def)
next
  assume "map_size (cache s) \<le> maxCacheSize s \<and> 0 < maxCacheSize s"
  then show "map_size (cache (storeInCache now key v s)) \<le> maxCacheSize s"
    by (simp add: storeInCache_size)
next
  assume "maxCacheSize s \<le> map_size (cache s) \<and> cache s = (k0, e0) # rest"
  then show "cache (storeInCache now key v s) = map_set key (cache_entry now v) rest"
    by (elim conjE) (rule storeInCache_at_capacity)
next
  assume "map_size (cache s) < maxCacheSize s"
  then show "cache (storeInCache now key v s) = map_set key (cache_entry now v) (cache s)"
    by (rule storeInCache_below_capacity)
next
  show "map fst (map_set key e m) = (if key \<in> set (map fst m) then map fst m else map fst m @ [key])"
    by (rule keys_map_set)
next
  show "set (map fst (quote_cache c))
        \<subseteq> set (map fst (quote_cache (snd (getStockPrice now' stamp alpha yahoo c ticker))))"
    by (rule getStockPrice_keys_kept)
next
  assume "distinct tickers
        \<and> (\<forall>t \<in> set tickers. ''stock_'' @ t \<notin> set (map fst (quote_cache c)))
        \<and> (\<forall>t \<in> set tickers. \<exists>q. fetch_chain stamp t net net = Inr q)"
  then show "map_size (quote_cache (price_all now' stamp net tickers c))
              = map_size (quote_cache c) + length tickers"
    by (elim conjE) (rule price_all_size)
next
  show "set (map fst (news_cache nc))
        \<subseteq> set (map fst (news_cache
              (snd (newsData_getNews ToString stringify clk nnet alt rss nc query options))))"
    by (rule newsData_getNews_keys_kept)
next
  assume "distinct qs
        \<and> (\<forall>q \<in> set qs. news_cacheKey stringify q options \<notin> set (map fst (news_cache nc)))"
  then show "map_size (news_cache (news_all ToString stringify clk nnet alt rss options qs nc))
              = map_size (news_cache nc) + length qs"
    by (elim conjE) (rule news_all_size)
qed

text \<open>The theorem at a run of three puts; at a cache of capacity 2 that is full, where
  storing \<^verbatim>\<open>c\<close> evicts \<^verbatim>\<open>a\<close>, the earliest-inserted key, and keeps \<^verbatim>\<open>b\<close>; and at a fresh stock
  client and a fresh news client, each asked for three different things.\<close>

theorem storeInCache_bounded_fifo_witness:
  "map_size (cache (fold (\<lambda>p. storeInCache (fst p) (fst (snd p)) (snd (snd p)))
       [(1, ''a'', JObj []), (2, ''b'', JObj []), (3, ''a'', JObj [])] constructor)) \<le> 100
   \<and> cache (storeInCache 7 ''c'' (JObj [])
         (constructor\<lparr>cache := [(''a'', []), (''b'', [])], maxCacheSize := 2\<rparr>))
       = [(''b'', []), (''c'', [(''cacheTimestamp'', JNum 7)])]
   \<and> map_size (quote_cache (price_all 0 [] quoted [''A'', ''B'', ''C''] new_StockDataClient)) = 3
   \<and> map_size (news_cache (news_all (\<lambda>v. []) (\<lambda>options. ''{}'')
         \<lparr>at_entry = 1, at_call = 2, at_reply = 3, at_check = 4, at_store = 5\<rparr>
         no_articles [] [] search_options [''A'', ''B'', ''C''] (new_NewsDataClient ''demo''))) = 3"
proof -
  let ?s = "constructor\<lparr>cache := [(''a'', []), (''b'', [])], maxCacheSize := 2\<rparr>"
  let ?t = "\<lparr>at_entry = 1, at_call = 2, at_reply = 3, at_check = 4, at_store = 5\<rparr>"
  have full: "maxCacheSize ?s \<le> map_size (cache ?s) \<and> cache ?s = (''a'', []) # [(''b'', [])]"
    by (simp add: map_size_def)
  have entry: "map_set ''c'' (cache_entry 7 (JObj [])) [(''b'', [])]
                 = [(''b'', []), (''c'', [(''cacheTimestamp'', JNum 7)])]"
    by (simp add: cache_entry_def)
  have stock: "distinct [''A'', ''B'', ''C'']
        \<and> (\<forall>t \<in> set [''A'', ''B'', ''C''].
              ''stock_'' @ t \<notin> set (map fst (quote_cache new_StockDataClient)))
        \<and> (\<forall>t \<in> set [''A'', ''B'', ''C'']. \<exists>q. fetch_chain [] t quoted quoted = Inr q)"
    by (simp add: new_StockDataClient_def fetch_chain_quoted)
  have news: "distinct [''A'', ''B'', ''C'']
        \<and> (\<forall>q \<in> set [''A'', ''B'', ''C''].
              news_cacheKey (\<lambda>options. ''{}'') q search_options
                \<notin> set (map fst (news_cache (new_NewsDataClient ''demo''))))"
    by (simp add: new_NewsDataClient_def)
  note inst = storeInCache_bounded_fifo
    [where puts = "[(1, ''a'', JObj []), (2, ''b'', JObj []), (3, ''a'', JObj [])]"
       and s = ?s and now = 7 and key = "''c''" and v = "JObj []" and ?k0.0 = "''a''"
       and ?e0.0 = "[]" and rest = "[(''b'', [])]" and e = "[]::json list" and m = "[]"
       and c = new_StockDataClient and now' = 0 and stamp = "[]" and alpha = quoted
       and yahoo = quoted and ticker = "''A''" and tickers = "[''A'', ''B'', ''C'']"
       and net = quoted and nc = "new_NewsDataClient ''demo''" and ToString = "\<lambda>v. []"
       and stringify = "\<lambda>options. ''{}''" and clk = ?t and nnet = no_articles and alt = "[]" and rss = "[]"
       and query = "''A''" and options = search_options and qs = "[''A'', ''B'', ''C'']"]
  have b1: "map_size (cache (fold (\<lambda>p. storeInCache (fst p) (fst (snd p)) (snd (snd p)))
       [(1, ''a'', JObj []), (2, ''b'', JObj []), (3, ''a'', JObj [])] constructor))
       \<le> maxCacheSize constructor" by (rule inst[THEN conjunct1])
  have b2: "maxCacheSize constructor = 100"
    by (rule inst[THEN conjunct2, THEN conjunct1])
  from b1 b2 have 1: "map_size (cache (fold (\<lambda>p. storeInCache (fst p) (fst (snd p)) (snd (snd p)))
       [(1, ''a'', JObj []), (2, ''b'', JObj []), (3, ''a'', JObj [])] constructor)) \<le> 100"
    by simp
  from inst full have "cache (storeInCache 7 ''c'' (JObj []) ?s)
      = map_set ''c'' (cache_entry 7 (JObj [])) [(''b'', [])]"
    by blast
  with entry have 2: "cache (storeInCache 7 ''c'' (JObj []) ?s)
       = [(''b'', []), (''c'', [(''cacheTimestamp'', JNum 7)])]" by simp
  from inst stock have "map_size (quote_cache (price_all 0 [] quoted [''A'', ''B'', ''C''] new_StockDataClient))
      = map_size (quote_cache new_StockDataClient) + length [''A'', ''B'', ''C'']"
    by blast
  then have 3: "map_size (quote_cache (price_all 0 [] quoted [''A'', ''B'', ''C''] new_StockDataClient)) = 3"
    by (simp add: new_StockDataClient_def map_size_def)
  from inst news have "map_size (news_cache (news_all (\<lambda>v. []) (\<lambda>options. ''{}'') ?t
         no_articles [] [] search_options [''A'', ''B'', ''C''] (new_NewsDataClient ''demo'')))
      = map_size (news_cache (new_NewsDataClient ''demo'')) + length [''A'', ''B'', ''C'']"
    by blast
  then have 4: "map_size (news_cache (news_all (\<lambda>v. []) (\<lambda>options. ''{}'') ?t
         no_articles [] [] search_options [''A'', ''B'', ''C''] (new_NewsDataClient ''demo''))) = 3"
    by (simp add: new_NewsDataClient_def map_size_def)
  show ?thesis by (rule conjI[OF 1 conjI[OF 2 conjI[OF 3 4]]])
qed

text \<open>Claim C5 as stated fails on the stock cache and on the news cache: after quotes for
  101 symbols, and after news for 101 queries, each holds 101 entries, more than the
  only size limit of the program.\<close>

theorem stock_cache_unbounded_counterexample:
  "map_size (quote_cache (price_all 0 [] quoted (map dec [0..<101]) new_StockDataClient)) = 101
   \<and> map_size (news_cache (news_all (\<lambda>v. []) (\<lambda>options. ''{}'')
         \<lparr>at_entry = 1, at_call = 2, at_reply = 3, at_check = 4, at_store = 5\<rparr>
         no_articles [] [] search_options (map dec [0..<101]) (new_NewsDataClient ''demo''))) = 101
   \<and> maxCacheSize constructor = 100"
proof -
  have d: "distinct (map dec [0..<101])"
    by (simp add: distinct_map inj_on_subset[OF inj_dec])
  then have "map_size (quote_cache (price_all 0 [] quoted (map dec [0..<101]) new_StockDataClient))
           = map_size (quote_cache new_StockDataClient) + length (map dec [0..<101])"
    by (rule price_all_size) (simp_all add: new_StockDataClient_def fetch_chain_quoted)
  then have 1: "map_size (quote_cache (price_all 0 [] quoted (map dec [0..<101]) new_StockDataClient))
           = 101"
    by (simp add: new_StockDataClient_def map_size_def)
  from d have "map_size (news_cache (news_all (\<lambda>v. []) (\<lambda>options. ''{}'')
         \<lparr>at_entry = 1, at_call = 2, at_reply = 3, at_check = 4, at_store = 5\<rparr>
         no_articles [] [] search_options (map dec [0..<101]) (new_NewsDataClient ''demo'')))
      = map_size (news_cache (new_NewsDataClient ''demo'')) + length (map dec [0..<101])"
    by (rule news_all_size) (simp add: new_NewsDataClient_def)
  then have 2: "map_size (news_cache (news_all (\<lambda>v. []) (\<lambda>options. ''{}'')
         \<lparr>at_entry = 1, at_call = 2, at_reply = 3, at_check = 4, at_store = 5\<rparr>
         no_articles [] [] search_options (map dec [0..<101]) (new_NewsDataClient ''demo''))) = 101"
    by (simp add: new_NewsDataClient_def map_size_def)
  have 3: "maxCacheSize constructor = 100" by (simp add: constructor_def)
  show ?thesis by (rule conjI[OF 1 conjI[OF 2 3]])
qed

section \<open>The circuit breaker, the configuration update and the reply parser\<close>

lemma makeLLMCall_disabled:
  "remoteDisabled s \<Longrightarrow>
   makeLLMCall ftu JSON_parse now net s promptType prompt
     = (fallbackProcessing ftu promptType prompt, s, None)"
  by (simp add: makeLLMCall_def)

lemma remoteDisabled_updateConfig [simp]:
  "remoteDisabled (updateConfig key url_arg model_arg s) = remoteDisabled s"
  by (simp add: updateConfig_def Let_def)

lemma failureCount_updateConfig [simp]:
  "failureCount (updateConfig key url_arg model_arg s) = failureCount s"
  by (simp add: updateConfig_def Let_def)

lemma apiKey_updateConfig [simp]:
  "apiKey (updateConfig key url_arg model_arg s) = key"
  by (simp add: updateConfig_def Let_def)

lemma remoteDisabled_initialize [simp]:
  "remoteDisabled (initialize hardcoded saved s) = remoteDisabled s"
  by (simp add: initialize_def apply_settings_def split: option.splits)

lemma remoteDisabled_storeInCache [simp]:
  "remoteDisabled (storeInCache now key v s) = remoteDisabled s"
  by (simp add: storeInCache_def Let_def)

lemma run_disabled:
  "remoteDisabled s \<Longrightarrow>
   fst (run ftu JSON_parse evs s)
     = map (\<lambda>(pt, p). (pt, p, fallbackProcessing ftu pt p, None)) (calls_of evs)
   \<and> remoteDisabled (snd (run ftu JSON_parse evs s))"
proof (induction evs arbitrary: s)
  case Nil
  then show ?case by simp
next
  case (Cons ev evs)
  show ?case
  proof (cases ev)
    case (Call now net pt p)
    with Cons.prems Cons.IH[of s] show ?thesis
      by (auto simp: makeLLMCall_disabled split: prod.splits)
  next
    case (UpdateConfig key u m)
    with Cons.prems Cons.IH[of "updateConfig key u m s"] show ?thesis by simp
  next
    case (Initialize h sv)
    with Cons.prems Cons.IH[of "initialize h sv s"] show ?thesis by simp
  next
    case (Store now key v)
    with Cons.prems Cons.IH[of "storeInCache now key v s"] show ?thesis by simp
  qed
qed

lemma remote_try_fails:
  "call_fails net \<Longrightarrow> \<exists>s'. remote_try JSON_parse now s net = Inl s' \<and> failureCount s' = failureCount s"
  by (auto simp: call_fails_def remote_try_def split: fetch_result.splits option.splits if_splits)

lemma on_failure_disables:
  "remoteDisabled (on_failure s) \<and> failureCount (on_failure s) = failureCount s + 1
   \<and> apiKey (on_failure s) = None"
  by (simp add: on_failure_def Let_def)

lemma failing_call:
  assumes "\<not> no_key (apiKey s)" and "\<not> remoteDisabled s" and "call_fails net"
  shows "\<exists>s1 req. makeLLMCall ftu JSON_parse now net s promptType prompt
            = (fallbackProcessing ftu promptType prompt, s1, Some req)
          \<and> remoteDisabled s1 \<and> failureCount s1 = failureCount s + 1 \<and> apiKey s1 = None"
proof -
  from assms(3) obtain s' where t: "remote_try JSON_parse now s net = Inl s'"
    and f: "failureCount s' = failureCount s"
    using remote_try_fails by blast
  with assms(1,2) show ?thesis
    by (simp add: makeLLMCall_def Let_def on_failure_disables)
qed

text \<open>
  Claim C1. A call of \<^verbatim>\<open>makeLLMCall\<close> on an enabled processor (a key, not disabled) that
  fails in any way (the \<^verbatim>\<open>fetch\<close> rejects, the status is outside 200 to 299, which includes
  400 and 401, or the body is no JSON) has tried the remote endpoint, returns the
  fallback routine's value, raises the failure counter by one and leaves the processor
  disabled. From then on, whatever operations follow (\<^verbatim>\<open>updateConfig\<close> with a fresh key,
  \<^verbatim>\<open>initialize\<close>, \<^verbatim>\<open>storeInCache\<close>, further calls), every call of \<^verbatim>\<open>makeLLMCall\<close> returns the value of
  the fallback routine for its prompt type and sends no request, and the disabled flag
  stays true.
\<close>

theorem circuit_breaker_permanent:
  assumes "\<not> no_key (apiKey s)" and "\<not> remoteDisabled s" and "call_fails net"
  shows "snd (snd (makeLLMCall ftu JSON_parse now net s promptType prompt)) \<noteq> None
   \<and> fst (makeLLMCall ftu JSON_parse now net s promptType prompt)
       = fallbackProcessing ftu promptType prompt
   \<and> remoteDisabled (fst (snd (makeLLMCall ftu JSON_parse now net s promptType prompt)))
   \<and> failureCount (fst (snd (makeLLMCall ftu JSON_parse now net s promptType prompt)))
       = failureCount s + 1
   \<and> fst (run ftu JSON_parse evs (fst (snd (makeLLMCall ftu JSON_parse now net s promptType prompt))))
       = map (\<lambda>(pt, p). (pt, p, fallbackProcessing ftu pt p, None)) (calls_of evs)
   \<and> remoteDisabled
        (snd (run ftu JSON_parse evs
               (fst (snd (makeLLMCall ftu JSON_parse now net s promptType prompt)))))
   \<and> call_fails Rejects
   \<and> call_fails (Responds \<lparr>status = 400, statusText = t400, body = b400\<rparr>)
   \<and> call_fails (Responds \<lparr>status = 401, statusText = t401, body = b401\<rparr>)"
proof -
  from failing_call[OF assms] obtain s1 req where
    m: "makeLLMCall ftu JSON_parse now net s promptType prompt
          = (fallbackProcessing ftu promptType prompt, s1, Some req)"
    and d: "remoteDisabled s1" and c: "failureCount s1 = failureCount s + 1"
    by blast
  from run_disabled[OF d, of ftu JSON_parse evs] m d c show ?thesis
    by (simp add: call_fails_def ok_def)
qed

text \<open>
  The theorem at a 401 reply to a processor with a key: a later call, made after
  \<^verbatim>\<open>updateConfig\<close> has set a fresh key and against a network that would answer 200, sends
  nothing and returns the fallback decision.
\<close>

theorem circuit_breaker_permanent_witness:
  "fst (run (\<lambda>prompt. JNull) not_json_text
         [UpdateConfig (Some ''sk-new'') None None,
          Call 2 (Responds \<lparr>status = 200, statusText = ''OK'', body = Some JNull\<rparr>)
            ''decision_making'' ''again'']
         (fst (snd (makeLLMCall (\<lambda>prompt. JNull) not_json_text 1
            (Responds \<lparr>status = 401, statusText = ''Unauthorized'', body = None\<rparr>)
            (constructor\<lparr>apiKey := Some ''sk-old''\<rparr>) ''decision_making'' ''first''))))
     = [(''decision_making'', ''again'', fallbackDecisionMaking, None)]
   \<and> remoteDisabled (fst (snd (makeLLMCall (\<lambda>prompt. JNull) not_json_text 1
            (Responds \<lparr>status = 401, statusText = ''Unauthorized'', body = None\<rparr>)
            (constructor\<lparr>apiKey := Some ''sk-old''\<rparr>) ''decision_making'' ''first'')))"
proof -
  let ?s = "constructor\<lparr>apiKey := Some ''sk-old''\<rparr>"
  let ?net = "Responds \<lparr>status = 401, statusText = ''Unauthorized'', body = None\<rparr>"
  have h: "\<not> no_key (apiKey ?s)" "\<not> remoteDisabled ?s" "call_fails ?net"
    by (simp_all add: constructor_def no_key_def call_fails_def ok_def)
  from circuit_breaker_permanent[OF h, of "\<lambda>prompt. JNull" not_json_text 1
      "''decision_making''" "''first''"
      "[UpdateConfig (Some ''sk-new'') None None,
        Call 2 (Responds \<lparr>status = 200, statusText = ''OK'', body = Some JNull\<rparr>)
          ''decision_making'' ''again'']"]
  show ?thesis by (simp add: fallbackProcessing_def)
qed

text \<open>
  Claim C2, as the code has it. \<^verbatim>\<open>updateConfig\<close> assigns the key and leaves both the
  disabled flag and the failure counter as they are. So on a disabled processor the call
  of \<^verbatim>\<open>makeLLMCall\<close> that follows still returns the fallback value and sends no request; only
  on a processor that was never disabled does the call go to the remote endpoint, with
  the new key as its bearer credential.
\<close>

theorem updateConfig_keeps_breaker:
  "remoteDisabled (updateConfig key url_arg model_arg s) = remoteDisabled s
   \<and> failureCount (updateConfig key url_arg model_arg s) = failureCount s
   \<and> apiKey (updateConfig key url_arg model_arg s) = key
   \<and> (remoteDisabled s \<longrightarrow>
        makeLLMCall ftu JSON_parse now net (updateConfig key url_arg model_arg s) promptType prompt
          = (fallbackProcessing ftu promptType prompt, updateConfig key url_arg model_arg s, None))
   \<and> (\<not> remoteDisabled s \<and> \<not> no_key key \<longrightarrow>
        (\<exists>req. snd (snd (makeLLMCall ftu JSON_parse now net
                           (updateConfig key url_arg model_arg s) promptType prompt)) = Some req
               \<and> bearer req = the key))"
proof (intro conjI impI)
  assume "remoteDisabled s"
  then have "remoteDisabled (updateConfig key url_arg model_arg s)" by simp
  then show "makeLLMCall ftu JSON_parse now net (updateConfig key url_arg model_arg s) promptType prompt
          = (fallbackProcessing ftu promptType prompt, updateConfig key url_arg model_arg s, None)"
    by (rule makeLLMCall_disabled)
next
  assume "\<not> remoteDisabled s \<and> \<not> no_key key"
  then show "\<exists>req. snd (snd (makeLLMCall ftu JSON_parse now net
                           (updateConfig key url_arg model_arg s) promptType prompt)) = Some req
               \<and> bearer req = the key"
    by (auto simp: makeLLMCall_def Let_def split: sum.splits)
qed simp_all

text \<open>
  The theorem at a disabled processor with one failure, and at a fresh one.
\<close>

theorem updateConfig_keeps_breaker_witness:
  "makeLLMCall (\<lambda>prompt. JNull) not_json_text 2
      (Responds \<lparr>status = 200, statusText = ''OK'', body = Some JNull\<rparr>)
      (updateConfig (Some ''sk-new'') None None
         (constructor\<lparr>remoteDisabled := True, failureCount := 1\<rparr>))
      ''decision_making'' ''again''
    = (fallbackDecisionMaking,
       constructor\<lparr>remoteDisabled := True, failureCount := 1, apiKey := Some ''sk-new''\<rparr>,
       None)
   \<and> bearer (the (snd (snd (makeLLMCall (\<lambda>prompt. JNull) not_json_text 2
      (Responds \<lparr>status = 200, statusText = ''OK'', body = Some JNull\<rparr>)
      (updateConfig (Some ''sk-new'') None None constructor)
      ''decision_making'' ''again'')))) = ''sk-new''"
proof -
  note a = updateConfig_keeps_breaker[of "Some ''sk-new''" None None
      "constructor\<lparr>remoteDisabled := True, failureCount := 1\<rparr>"
      "\<lambda>prompt. JNull" not_json_text 2
      "Responds \<lparr>status = 200, statusText = ''OK'', body = Some JNull\<rparr>"
      "''decision_making''" "''again''"]
  note b = updateConfig_keeps_breaker[of "Some ''sk-new''" None None constructor
      "\<lambda>prompt. JNull" not_json_text 2
      "Responds \<lparr>status = 200, statusText = ''OK'', body = Some JNull\<rparr>"
      "''decision_making''" "''again''"]
  have u: "updateConfig (Some ''sk-new'') None None
         (constructor\<lparr>remoteDisabled := True, failureCount := 1\<rparr>)
       = constructor\<lparr>remoteDisabled := True, failureCount := 1, apiKey := Some ''sk-new''\<rparr>"
    by (simp add: updateConfig_def no_key_def constructor_def)
  have f: "fallbackProcessing (\<lambda>prompt. JNull) ''decision_making'' ''again'' = fallbackDecisionMaking"
    by (simp add: fallbackProcessing_def)
  have k: "\<not> remoteDisabled constructor \<and> \<not> no_key (Some ''sk-new'')"
    by (simp add: constructor_def no_key_def)
  from a u f have "makeLLMCall (\<lambda>prompt. JNull) not_json_text 2
      (Responds \<lparr>status = 200, statusText = ''OK'', body = Some JNull\<rparr>)
      (updateConfig (Some ''sk-new'') None None
         (constructor\<lparr>remoteDisabled := True, failureCount := 1\<rparr>))
      ''decision_making'' ''again''
    = (fallbackDecisionMaking,
       constructor\<lparr>remoteDisabled := True, failureCount := 1, apiKey := Some ''sk-new''\<rparr>,
       None)"
    by simp
  moreover from b k have "bearer (the (snd (snd (makeLLMCall (\<lambda>prompt. JNull) not_json_text 2
      (Responds \<lparr>status = 200, statusText = ''OK'', body = Some JNull\<rparr>)
      (updateConfig (Some ''sk-new'') None None constructor)
      ''decision_making'' ''again'')))) = ''sk-new''"
    by auto
  ultimately show ?thesis by blast
qed

text \<open>
  Claim C2 as stated fails: after one rejected \<^verbatim>\<open>fetch\<close>, \<^verbatim>\<open>updateConfig\<close> with a fresh key
  leaves the processor disabled with its counter at 1, and the next call sends no
  request although the network would answer 200.
\<close>

theorem updateConfig_no_reset_counterexample:
  "remoteDisabled (updateConfig (Some ''sk-new'') None None
      (fst (snd (makeLLMCall (\<lambda>prompt. JNull) not_json_text 1 Rejects
         (constructor\<lparr>apiKey := Some ''sk-old''\<rparr>) ''decision_making'' ''first''))))
   \<and> failureCount (updateConfig (Some ''sk-new'') None None
      (fst (snd (makeLLMCall (\<lambda>prompt. JNull) not_json_text 1 Rejects
         (constructor\<lparr>apiKey := Some ''sk-old''\<rparr>) ''decision_making'' ''first'')))) = 1
   \<and> snd (snd (makeLLMCall (\<lambda>prompt. JNull) not_json_text 2
        (Responds \<lparr>status = 200, statusText = ''OK'', body = Some JNull\<rparr>)
        (updateConfig (Some ''sk-new'') None None
          (fst (snd (makeLLMCall (\<lambda>prompt. JNull) not_json_text 1 Rejects
             (constructor\<lparr>apiKey := Some ''sk-old''\<rparr>) ''decision_making'' ''first''))))
        ''decision_making'' ''again'')) = None"
  by (simp add: makeLLMCall_def remote_try_def on_failure_def updateConfig_def no_key_def
      constructor_def Let_def)

lemma parseLLMResponse_returns: "\<exists>v. parseLLMResponse JSON_parse now response = Inr v"
  by (simp add: parseLLMResponse_def split: sum.splits)

lemma content_of_message:
  "map_of fs ''choices'' = Some (JArr (JObj cs # others)) \<Longrightarrow> map_of cs ''message'' = Some (JObj ms)
   \<Longrightarrow> content_of (JObj fs) = Inr (map_of ms ''content'')"
  by (simp add: content_of_def and_then_def)

lemma content_of_throws:
  "content_of response = Inl e \<Longrightarrow> e = TypeError"
proof -
  have m: "member v k = Inl e \<Longrightarrow> e = TypeError" for v k e
    by (cases "(v, k)" rule: member.cases) auto
  have z: "elem0 v = Inl e \<Longrightarrow> e = TypeError" for v e
    by (cases v rule: elem0.cases) auto
  assume "content_of response = Inl e"
  then show ?thesis
    by (auto simp: content_of_def and_then_def split: sum.splits dest: m z)
qed

text \<open>
  Claim C6, as the code has it. \<^verbatim>\<open>parseLLMResponse\<close> always returns. It reads
  \<^verbatim>\<open>response.choices[0].message.content\<close> and decodes it as JSON: the decoded value when
  that succeeds; when decoding fails, the content wrapped as
  \<^verbatim>\<open>{text, parsed: true, timestamp}\<close> (the flag is \<^verbatim>\<open>true\<close>, not \<^verbatim>\<open>false\<close>), where the text is
  left out when the message has no content, since the read then gives \<^verbatim>\<open>undefined\<close>. Only
  when the read itself throws, which is a \<^verbatim>\<open>TypeError\<close> (the reply is \<^verbatim>\<open>null\<close>, it has no
  choices or no first choice, or the first choice has no message), does it return
  \<^verbatim>\<open>{text: 'Unable to process LLM response', parsed: false}\<close>, without a timestamp.
\<close>

theorem parseLLMResponse_never_raises:
  "(\<exists>v. parseLLMResponse JSON_parse now response = Inr v)
   \<and> (content_of response = Inr reply_text \<and> JSON_parse reply_text = Inr v
        \<longrightarrow> parseLLMResponse JSON_parse now response = Inr v)
   \<and> (content_of response = Inr reply_text \<and> JSON_parse reply_text = Inl e
        \<longrightarrow> parseLLMResponse JSON_parse now response = Inr (text_wrapper reply_text now))
   \<and> text_wrapper (Some c) now
        = JObj [(''text'', c), (''parsed'', JBool True), (''timestamp'', JNum (of_nat now))]
   \<and> text_wrapper None now = JObj [(''parsed'', JBool True), (''timestamp'', JNum (of_nat now))]
   \<and> (content_of response = Inl e'
        \<longrightarrow> e' = TypeError
            \<and> parseLLMResponse JSON_parse now response
              = Inr (JObj [(''text'', JStr ''Unable to process LLM response''),
                           (''parsed'', JBool False)]))
   \<and> (map_of fs ''choices'' = Some (JArr (JObj cs # others)) \<and> map_of cs ''message'' = Some (JObj ms)
        \<longrightarrow> content_of (JObj fs) = Inr (map_of ms ''content''))
   \<and> content_of JNull = Inl TypeError
   \<and> (map_of fs ''choices'' = None \<or> map_of fs ''choices'' = Some (JArr [])
        \<longrightarrow> content_of (JObj fs) = Inl TypeError)
   \<and> (map_of fs ''choices'' = Some (JArr (JObj cs # others)) \<and> map_of cs ''message'' = None
        \<longrightarrow> content_of (JObj fs) = Inl TypeError)"
proof (intro conjI impI)
  show "\<exists>v. parseLLMResponse JSON_parse now response = Inr v"
    by (rule parseLLMResponse_returns)
next
  assume "content_of response = Inr reply_text \<and> JSON_parse reply_text = Inr v"
  then show "parseLLMResponse JSON_parse now response = Inr v"
    by (simp add: parseLLMResponse_def)
next
  assume "content_of response = Inr reply_text \<and> JSON_parse reply_text = Inl e"
  then show "parseLLMResponse JSON_parse now response = Inr (text_wrapper reply_text now)"
    by (simp add: parseLLMResponse_def)
next
  show "text_wrapper (Some c) now
        = JObj [(''text'', c), (''parsed'', JBool True), (''timestamp'', JNum (of_nat now))]"
    by (simp add: text_wrapper_def)
next
  show "text_wrapper None now = JObj [(''parsed'', JBool True), (''timestamp'', JNum (of_nat now))]"
    by (simp add: text_wrapper_def)
next
  assume "content_of response = Inl e'"
  then show "e' = TypeError" by (rule content_of_throws)
next
  assume "content_of response = Inl e'"
  then show "parseLLMResponse JSON_parse now response
              = Inr (JObj [(''text'', JStr ''Unable to process LLM response''),
                           (''parsed'', JBool False)])"
    by (simp add: parseLLMResponse_def)
next
  assume "map_of fs ''choices'' = Some (JArr (JObj cs # others)) \<and> map_of cs ''message'' = Some (JObj ms)"
  then show "content_of (JObj fs) = Inr (map_of ms ''content'')"
    by (simp add: content_of_message)
next
  show "content_of JNull = Inl TypeError"
    by (simp add: content_of_def and_then_def)
next
  assume "map_of fs ''choices'' = None \<or> map_of fs ''choices'' = Some (JArr [])"
  then show "content_of (JObj fs) = Inl TypeError"
    by (auto simp: content_of_def and_then_def)
next
  assume "map_of fs ''choices'' = Some (JArr (JObj cs # others)) \<and> map_of cs ''message'' = None"
  then show "content_of (JObj fs) = Inl TypeError"
    by (simp add: content_of_def and_then_def)
qed

text \<open>The theorem at a reply whose content is the plain text \<^verbatim>\<open>hello\<close>, at a reply whose
  message has no content, and at a reply with no choices.\<close>

theorem parseLLMResponse_never_raises_witness:
  "parseLLMResponse not_json_text 1000
      (JObj [(''choices'', JArr [JObj [(''message'', JObj [(''content'', JStr ''hello'')])]])])
     = Inr (JObj [(''text'', JStr ''hello''), (''parsed'', JBool True), (''timestamp'', JNum 1000)])
   \<and> parseLLMResponse not_json_text 1000
      (JObj [(''choices'', JArr [JObj [(''message'', JObj [])]])])
     = Inr (JObj [(''parsed'', JBool True), (''timestamp'', JNum 1000)])
   \<and> parseLLMResponse not_json_text 1000 (JObj [(''choices'', JArr [])])
     = Inr (JObj [(''text'', JStr ''Unable to process LLM response''), (''parsed'', JBool False)])"
proof -
  let ?r = "JObj [(''choices'', JArr [JObj [(''message'', JObj [(''content'', JStr ''hello'')])]])]"
  let ?m = "JObj [(''choices'', JArr [JObj [(''message'', JObj [])]])]"
  let ?n = "JObj [(''choices'', JArr [])]"
  have c1: "content_of ?r = Inr (Some (JStr ''hello''))
            \<and> not_json_text (Some (JStr ''hello'')) = Inl SyntaxError"
    by (simp add: content_of_def and_then_def not_json_text_def)
  have c2: "content_of ?m = Inr None \<and> not_json_text None = Inl SyntaxError"
    by (simp add: content_of_def and_then_def not_json_text_def)
  have c3: "content_of ?n = Inl TypeError"
    by (simp add: content_of_def and_then_def)
  note i1 = parseLLMResponse_never_raises[where JSON_parse = not_json_text and now = 1000
      and response = ?r and reply_text = "Some (JStr ''hello'')" and e = SyntaxError
      and c = "JStr ''hello''"]
  note i2 = parseLLMResponse_never_raises[where JSON_parse = not_json_text and now = 1000
      and response = ?m and reply_text = None and e = SyntaxError]
  note i3 = parseLLMResponse_never_raises[where JSON_parse = not_json_text and now = 1000
      and response = ?n and e' = TypeError]
  from i1 c1 have "parseLLMResponse not_json_text 1000 ?r
      = Inr (text_wrapper (Some (JStr ''hello'')) 1000)" by blast
  moreover from i1 have "text_wrapper (Some (JStr ''hello'')) 1000
      = JObj [(''text'', JStr ''hello''), (''parsed'', JBool True), (''timestamp'', JNum (of_nat 1000))]"
    by blast
  ultimately have 1: "parseLLMResponse not_json_text 1000 ?r
     = Inr (JObj [(''text'', JStr ''hello''), (''parsed'', JBool True), (''timestamp'', JNum 1000)])"
    by simp
  from i2 c2 have "parseLLMResponse not_json_text 1000 ?m = Inr (text_wrapper None 1000)"
    by blast
  moreover from i2 have "text_wrapper None 1000
      = JObj [(''parsed'', JBool True), (''timestamp'', JNum (of_nat 1000))]"
    by blast
  ultimately have 2: "parseLLMResponse not_json_text 1000 ?m
     = Inr (JObj [(''parsed'', JBool True), (''timestamp'', JNum 1000)])"
    by simp
  from i3 c3 have 3: "parseLLMResponse not_json_text 1000 ?n
     = Inr (JObj [(''text'', JStr ''Unable to process LLM response''), (''parsed'', JBool False)])"
    by blast
  show ?thesis by (rule conjI[OF 1 conjI[OF 2 3]])
qed

text \<open>Claim C6 as stated fails: for the content \<^verbatim>\<open>hello\<close>, which is no JSON, the wrapper
  carries \<^verbatim>\<open>parsed: true\<close>.\<close>

theorem parseLLMResponse_parsed_flag_counterexample:
  "parseLLMResponse not_json_text 1000
      (JObj [(''choices'', JArr [JObj [(''message'', JObj [(''content'', JStr ''hello'')])]])])
     = Inr (JObj [(''text'', JStr ''hello''), (''parsed'', JBool True), (''timestamp'', JNum 1000)])
   \<and> parseLLMResponse not_json_text 1000
      (JObj [(''choices'', JArr [JObj [(''message'', JObj [(''content'', JStr ''hello'')])]])])
     \<noteq> Inr (JObj [(''text'', JStr ''hello''), (''parsed'', JBool False), (''timestamp'', JNum 1000)])"
  by (simp add: parseLLMResponse_def content_of_def and_then_def not_json_text_def text_wrapper_def)

section \<open>The confidence score\<close>

lemma rnd_5_10: "rnd (5 / 10) = 1 / 2"
  by code_simp

lemma rnd_2_10: "rnd (2 / 10) = 3602879701896397 / 18014398509481984"
  by code_simp

lemma rnd_1_10: "rnd (1 / 10) = 3602879701896397 / 36028797018963968"
  by code_simp

lemma rnd_7_10: "rnd (7 / 10) = 3152519739159347 / 4503599627370496"
  by code_simp

lemma dadd_5_2: "dadd (1 / 2) (3602879701896397 / 18014398509481984)
                   = 3152519739159347 / 4503599627370496"
  by code_simp

lemma dadd_5_1: "dadd (1 / 2) (3602879701896397 / 36028797018963968)
                   = 5404319552844595 / 9007199254740992"
  by code_simp

lemma dadd_6_1: "dadd (5404319552844595 / 9007199254740992) (3602879701896397 / 36028797018963968)
                   = 3152519739159347 / 4503599627370496"
  by code_simp

lemma dadd_7_1: "dadd (3152519739159347 / 4503599627370496) (3602879701896397 / 36028797018963968)
                   = 7205759403792793 / 9007199254740992"
  by code_simp

lemma dadd_8_1: "dadd (7205759403792793 / 9007199254740992) (3602879701896397 / 36028797018963968)
                   = 2026619832316723 / 2251799813685248"
  by code_simp

lemma dadd_9_1: "dadd (2026619832316723 / 2251799813685248) (3602879701896397 / 36028797018963968)
                   = 9007199254740991 / 9007199254740992"
  by code_simp

lemmas binary64_sums =
  rnd_5_10 rnd_2_10 rnd_1_10 dadd_5_2 dadd_5_1 dadd_6_1 dadd_7_1 dadd_8_1 dadd_9_1

lemma score_error:
  "\<bar>calculateConfidenceScore now (Some d) - decimal_score now (Some d)\<bar> \<le> 1 / 2 ^ 53
   \<and> calculateConfidenceScore now (Some d) < 1"
  unfolding calculateConfidenceScore_def decimal_score_def option.case Let_def
  by (cases "exceeds (data_price d) 0"; cases "exceeds (data_volume d) 1000";
      cases "no_key (data_source d)"; cases "within_5_minutes now (data_timestamp d)";
      simp only: if_True if_False binary64_sums; simp)

lemma score_full:
  assumes "exceeds (data_price d) 0" "exceeds (data_volume d) 1000" "\<not> no_key (data_source d)"
    "within_5_minutes now (data_timestamp d)"
  shows "calculateConfidenceScore now (Some d) = 1 - 1 / 2 ^ 53"
  unfolding calculateConfidenceScore_def option.case Let_def using assms
  by (simp only: if_True if_False binary64_sums) simp

lemma score_price:
  assumes "exceeds (data_price d) 0" "\<not> exceeds (data_volume d) 1000" "no_key (data_source d)"
    "\<not> within_5_minutes now (data_timestamp d)"
  shows "calculateConfidenceScore now (Some d) = rnd (7 / 10)"
  unfolding calculateConfidenceScore_def option.case Let_def using assms
  by (simp only: if_True if_False binary64_sums rnd_7_10)

lemma score_absent:
  "\<bar>calculateConfidenceScore now None - decimal_score now None\<bar> \<le> 1 / 2 ^ 53
   \<and> calculateConfidenceScore now None < 1"
  by (simp add: calculateConfidenceScore_def decimal_score_def rnd_1_10)

text \<open>
  Claim C7, as the code has it. The score is computed in binary64: 0.1 for an absent
  data object; otherwise the base 0.5 and the bonuses 0.2, 0.1, 0.1, 0.1 are added one
  after the other, each sum rounded. The result is within \<open>2 ^ -53\<close> of the exact decimal
  sum of the specification and always below 1, so the clamp never takes effect. With all
  four bonuses the score is \<open>1 - 2 ^ -53\<close>, which prints as 0.9999999999999999, not 1.0;
  with the price bonus alone it is the binary64 value of 0.7.
\<close>

theorem calculateConfidenceScore_binary64:
  "calculateConfidenceScore now None = rnd (1 / 10)
   \<and> \<bar>calculateConfidenceScore now data - decimal_score now data\<bar> \<le> 1 / 2 ^ 53
   \<and> calculateConfidenceScore now data < 1
   \<and> (exceeds (data_price d) 0 \<and> exceeds (data_volume d) 1000 \<and> \<not> no_key (data_source d)
        \<and> within_5_minutes now (data_timestamp d)
        \<longrightarrow> calculateConfidenceScore now (Some d) = 1 - 1 / 2 ^ 53)
   \<and> (exceeds (data_price d) 0 \<and> \<not> exceeds (data_volume d) 1000 \<and> no_key (data_source d)
        \<and> \<not> within_5_minutes now (data_timestamp d)
        \<longrightarrow> calculateConfidenceScore now (Some d) = rnd (7 / 10))
   \<and> rnd (1 / 10) = 3602879701896397 / 36028797018963968
   \<and> rnd (7 / 10) = 3152519739159347 / 4503599627370496"
proof (intro conjI impI)
  show "calculateConfidenceScore now None = rnd (1 / 10)"
    by (simp add: calculateConfidenceScore_def)
next
  show "\<bar>calculateConfidenceScore now data - decimal_score now data\<bar> \<le> 1 / 2 ^ 53"
    using score_absent[of now] score_error[of now] by (cases data) blast+
next
  show "calculateConfidenceScore now data < 1"
    using score_absent[of now] score_error[of now] by (cases data) blast+
next
  assume "exceeds (data_price d) 0 \<and> exceeds (data_volume d) 1000 \<and> \<not> no_key (data_source d)
        \<and> within_5_minutes now (data_timestamp d)"
  then show "calculateConfidenceScore now (Some d) = 1 - 1 / 2 ^ 53"
    using score_full by blast
next
  assume "exceeds (data_price d) 0 \<and> \<not> exceeds (data_volume d) 1000 \<and> no_key (data_source d)
        \<and> \<not> within_5_minutes now (data_timestamp d)"
  then show "calculateConfidenceScore now (Some d) = rnd (7 / 10)"
    using score_price by blast
next
  show "rnd (1 / 10) = 3602879701896397 / 36028797018963968" by (rule rnd_1_10)
next
  show "rnd (7 / 10) = 3152519739159347 / 4503599627370496" by (rule rnd_7_10)
qed

text \<open>
  The theorem at the quotes of the specification: price 100, volume 5000, a source and
  a timestamp equal to the current time; price 100 alone; no data object.
\<close>

theorem calculateConfidenceScore_binary64_witness:
  "calculateConfidenceScore 1000
     (Some \<lparr>data_price = Some 100, data_volume = Some 5000, data_source = Some ''x'',
            data_timestamp = Some (Millis 1000)\<rparr>) = 9007199254740991 / 9007199254740992
   \<and> calculateConfidenceScore 1000
     (Some \<lparr>data_price = Some 100, data_volume = None, data_source = None,
            data_timestamp = None\<rparr>) = 3152519739159347 / 4503599627370496
   \<and> calculateConfidenceScore 1000 None = 3602879701896397 / 36028797018963968"
proof -
  let ?full = "\<lparr>data_price = Some 100, data_volume = Some 5000, data_source = Some ''x'',
            data_timestamp = Some (Millis 1000)\<rparr>"
  let ?bare = "\<lparr>data_price = Some 100, data_volume = None, data_source = None,
            data_timestamp = None\<rparr>"
  have f: "exceeds (data_price ?full) 0 \<and> exceeds (data_volume ?full) 1000
        \<and> \<not> no_key (data_source ?full) \<and> within_5_minutes 1000 (data_timestamp ?full)"
    by (simp add: exceeds_def no_key_def within_5_minutes_def)
  have b: "exceeds (data_price ?bare) 0 \<and> \<not> exceeds (data_volume ?bare) 1000
        \<and> no_key (data_source ?bare) \<and> \<not> within_5_minutes 1000 (data_timestamp ?bare)"
    by (simp add: exceeds_def no_key_def within_5_minutes_def)
  from calculateConfidenceScore_binary64[of 1000 None ?full] f
  have "calculateConfidenceScore 1000 (Some ?full) = 1 - 1 / 2 ^ 53" by blast
  then have 1: "calculateConfidenceScore 1000 (Some ?full) = 9007199254740991 / 9007199254740992"
    by simp
  from calculateConfidenceScore_binary64[of 1000 None ?bare] b
  have 2: "calculateConfidenceScore 1000 (Some ?bare) = 3152519739159347 / 4503599627370496"
    by metis
  from calculateConfidenceScore_binary64[of 1000 None ?bare]
  have 3: "calculateConfidenceScore 1000 None = 3602879701896397 / 36028797018963968"
    by metis
  from 1 2 3 show ?thesis by blast
qed

text \<open>
  Claim C7 as stated fails: the quote with price 100, volume 5000, a source and a fresh
  timestamp does not score 1.0, although the exact decimal sum is 1.
\<close>

theorem calculateConfidenceScore_not_one_counterexample:
  "calculateConfidenceScore 1000
     (Some \<lparr>data_price = Some 100, data_volume = Some 5000, data_source = Some ''x'',
            data_timestamp = Some (Millis 1000)\<rparr>) \<noteq> 1
   \<and> decimal_score 1000
     (Some \<lparr>data_price = Some 100, data_volume = Some 5000, data_source = Some ''x'',
            data_timestamp = Some (Millis 1000)\<rparr>) = 1"
proof -
  let ?full = "\<lparr>data_price = Some 100, data_volume = Some 5000, data_source = Some ''x'',
            data_timestamp = Some (Millis 1000)\<rparr>"
  have "exceeds (data_price ?full) 0" "exceeds (data_volume ?full) 1000"
       "\<not> no_key (data_source ?full)" "within_5_minutes 1000 (data_timestamp ?full)"
    by (simp_all add: exceeds_def no_key_def within_5_minutes_def)
  then have "calculateConfidenceScore 1000 (Some ?full) = 1 - 1 / 2 ^ 53"
    by (rule score_full)
  moreover have "decimal_score 1000 (Some ?full) = 1"
    by (simp add: decimal_score_def exceeds_def no_key_def within_5_minutes_def)
  ultimately show ?thesis by simp
qed

section \<open>The quote chain, the batch of quotes and the price history\<close>

lemma cached_miss:
  assumes "map_get (quote_cache c) key = None \<or> map_get (lastFetchTime c) key = None
           \<or> (\<exists>t. map_get (lastFetchTime c) key = Some t \<and> CACHE_DURATION c \<le> now - t)"
  shows "cached now c key = None"
  using assms by (auto simp: cached_def split: option.splits)

lemma getStockPrice_miss:
  assumes "cached now c (''stock_'' @ ticker) = None"
  shows "getStockPrice now stamp alpha yahoo c ticker
         = (case fetch_chain stamp ticker alpha yahoo of
              Inr data \<Rightarrow> (Inr data, remember now (''stock_'' @ ticker) data c)
            | Inl message \<Rightarrow> (Inl message, c))"
  using assms by (simp add: getStockPrice_def Let_def split: sum.splits)

text \<open>
  Claim C3, as the code has it. When the cache has no entry for the symbol, or the entry
  is 60 seconds old or older (for the client as constructed), \<^verbatim>\<open>getStockPrice\<close> walks a
  chain of two providers: the quote of Alpha Vantage when that call succeeds; otherwise
  the quote of Yahoo Finance when that call succeeds; otherwise the error
  \<^verbatim>\<open>Unable to fetch data for <symbol>\<close>. A quote that is returned is stored under
  \<^verbatim>\<open>stock_<symbol>\<close> with the time of the call; a failure stores nothing. The third
  provider, Finnhub, is constructed but never called. An entry younger than the cache
  duration is returned as it is.
\<close>

theorem getStockPrice_two_providers:
  assumes "map_get (quote_cache c) (''stock_'' @ ticker) = None
           \<or> map_get (lastFetchTime c) (''stock_'' @ ticker) = None
           \<or> (\<exists>t. map_get (lastFetchTime c) (''stock_'' @ ticker) = Some t
                    \<and> CACHE_DURATION c \<le> now - t)"
  shows "(alphaVantage_getStockData stamp ticker alpha = Inr q \<longrightarrow>
            getStockPrice now stamp alpha yahoo c ticker
              = (Inr q, remember now (''stock_'' @ ticker) q c))
   \<and> (alphaVantage_getStockData stamp ticker alpha = Inl e
        \<and> yahooFinance_getStockData stamp ticker yahoo = Inr q \<longrightarrow>
            getStockPrice now stamp alpha yahoo c ticker
              = (Inr q, remember now (''stock_'' @ ticker) q c))
   \<and> (alphaVantage_getStockData stamp ticker alpha = Inl e
        \<and> yahooFinance_getStockData stamp ticker yahoo = Inl e2 \<longrightarrow>
            getStockPrice now stamp alpha yahoo c ticker
              = (Inl (''Unable to fetch data for '' @ ticker), c))
   \<and> CACHE_DURATION new_StockDataClient = 60000
   \<and> (cached now' c' (''stock_'' @ ticker) = Some q' \<longrightarrow>
        getStockPrice now' stamp alpha yahoo c' ticker = (Inr q', c'))"
proof -
  from assms have "cached now c (''stock_'' @ ticker) = None" by (rule cached_miss)
  then have "getStockPrice now stamp alpha yahoo c ticker
         = (case fetch_chain stamp ticker alpha yahoo of
              Inr data \<Rightarrow> (Inr data, remember now (''stock_'' @ ticker) data c)
            | Inl message \<Rightarrow> (Inl message, c))"
    by (rule getStockPrice_miss)
  then show ?thesis
    by (simp add: fetch_chain_def new_StockDataClient_def getStockPrice_def)
qed

theorem getStockPrice_two_providers_witness:
  "getStockPrice 5 ''2026'' alpha_rate_limited yahoo_AAPL new_StockDataClient ''aapl''
     = (Inr \<lparr> symbol = Some (JStr ''AAPL''),
              price = Raw (Some (JNum 150)), open = Raw None, high = Raw None, low = Raw None,
              volume = Some (Raw None),
              change = Minus (Raw (Some (JNum 150))) (Raw (Some (JNum 149))),
              changePercent = Times (Divide (Minus (Raw (Some (JNum 150))) (Raw (Some (JNum 149))))
                                            (Raw (Some (JNum 149)))) (Num 100),
              timestamp = ''2026'', source = ''yahoo_finance'' \<rparr>,
        remember 5 ''stock_aapl''
          \<lparr> symbol = Some (JStr ''AAPL''),
              price = Raw (Some (JNum 150)), open = Raw None, high = Raw None, low = Raw None,
              volume = Some (Raw None),
              change = Minus (Raw (Some (JNum 150))) (Raw (Some (JNum 149))),
              changePercent = Times (Divide (Minus (Raw (Some (JNum 150))) (Raw (Some (JNum 149))))
                                            (Raw (Some (JNum 149)))) (Num 100),
              timestamp = ''2026'', source = ''yahoo_finance'' \<rparr> new_StockDataClient)
   \<and> getStockPrice 5 ''2026'' alpha_rate_limited yahoo_not_found new_StockDataClient ''aapl''
     = (Inl ''Unable to fetch data for aapl'', new_StockDataClient)"
proof -
  let ?q = "\<lparr> symbol = Some (JStr ''AAPL''),
              price = Raw (Some (JNum 150)), open = Raw None, high = Raw None, low = Raw None,
              volume = Some (Raw None),
              change = Minus (Raw (Some (JNum 150))) (Raw (Some (JNum 149))),
              changePercent = Times (Divide (Minus (Raw (Some (JNum 150))) (Raw (Some (JNum 149))))
                                            (Raw (Some (JNum 149)))) (Num 100),
              timestamp = ''2026'', source = ''yahoo_finance'' \<rparr>"
  let ?e = "Wrapped ''Alpha Vantage API error: '' (Error ''API rate limit exceeded'')"
  let ?e2 = "Wrapped ''Yahoo Finance API error: '' (Error ''Invalid symbol or no data'')"
  have miss: "map_get (quote_cache new_StockDataClient) (''stock_'' @ ''aapl'') = None
           \<or> map_get (lastFetchTime new_StockDataClient) (''stock_'' @ ''aapl'') = None
           \<or> (\<exists>t. map_get (lastFetchTime new_StockDataClient) (''stock_'' @ ''aapl'') = Some t
                    \<and> CACHE_DURATION new_StockDataClient \<le> 5 - t)"
    by (simp add: new_StockDataClient_def map_get_def)
  have a: "alphaVantage_getStockData ''2026'' ''aapl'' alpha_rate_limited = Inl ?e"
    by (simp add: alphaVantage_getStockData_def alpha_rate_limited_def reply_def and_then_def
        rethrow_def)
  have y: "yahooFinance_getStockData ''2026'' ''aapl'' yahoo_AAPL = Inr ?q"
    by (simp add: yahooFinance_getStockData_def yahoo_AAPL_def reply_def and_then_def
        rethrow_def field_def)
  have n: "yahooFinance_getStockData ''2026'' ''aapl'' yahoo_not_found = Inl ?e2"
    by (simp add: yahooFinance_getStockData_def yahoo_not_found_def reply_def and_then_def
        rethrow_def field_def)
  from getStockPrice_two_providers[OF miss, where stamp = "''2026''"
      and alpha = alpha_rate_limited and q = ?q and e = ?e and yahoo = yahoo_AAPL]
    a y
  have 1: "getStockPrice 5 ''2026'' alpha_rate_limited yahoo_AAPL new_StockDataClient ''aapl''
     = (Inr ?q, remember 5 ''stock_aapl'' ?q new_StockDataClient)"
    by simp
  from getStockPrice_two_providers[OF miss, where stamp = "''2026''"
      and alpha = alpha_rate_limited and q = ?q and e = ?e and yahoo = yahoo_not_found
      and ?e2.0 = ?e2] a n
  have 2: "getStockPrice 5 ''2026'' alpha_rate_limited yahoo_not_found new_StockDataClient ''aapl''
     = (Inl ''Unable to fetch data for aapl'', new_StockDataClient)"
    by simp
  from 1 2 show ?thesis by blast
qed

text \<open>Claim C3 as stated fails: with the first two providers failing and Finnhub ready
  to answer with a quote, a chain over three providers returns Finnhub's quote, and
  \<^verbatim>\<open>getStockPrice\<close> raises the error.\<close>

theorem getStockPrice_no_third_provider_counterexample:
  "fst (getStockPrice 5 ''2026'' alpha_rate_limited yahoo_not_found new_StockDataClient ''IBM'')
     = Inl ''Unable to fetch data for IBM''
   \<and> three_provider_chain ''2026'' ''IBM'' alpha_rate_limited yahoo_not_found finnhub_quote
     = Inr \<lparr> symbol = Some (JStr ''IBM''),
             price = Raw (Some (JNum 150)), open = Raw (Some (JNum 149)),
             high = Raw (Some (JNum 151)), low = Raw (Some (JNum 148)),
             volume = None, change = Raw (Some (JNum 1)),
             changePercent = Raw (Some (JNum (2 / 3))),
             timestamp = ''2026'', source = ''finnhub'' \<rparr>"
  by (simp add: getStockPrice_def cached_def map_get_def new_StockDataClient_def fetch_chain_def
      three_provider_chain_def alphaVantage_getStockData_def yahooFinance_getStockData_def
      finnhub_getStockData_def alpha_rate_limited_def yahoo_not_found_def finnhub_quote_def
      reply_def and_then_def rethrow_def field_def)

text \<open>
  Claim C4 at the requested symbol \<^verbatim>\<open>aapl\<close>, when Alpha Vantage is rate-limited and Yahoo
  Finance answers with \<^verbatim>\<open>meta.symbol = "AAPL"\<close>: the result is stored under \<^verbatim>\<open>result.symbol\<close>,
  so the only key of the returned object is \<^verbatim>\<open>AAPL\<close> and the requested \<^verbatim>\<open>aapl\<close> has no
  entry.
\<close>

theorem getMultipleStockPrices_keyed_by_reply:
  "map fst (fst (getMultipleStockPrices ToString 5 ''2026'' new_StockDataClient
                   [(''aapl'', alpha_rate_limited, yahoo_AAPL)])) = [''AAPL'']
   \<and> map_get (fst (getMultipleStockPrices ToString 5 ''2026'' new_StockDataClient
                   [(''aapl'', alpha_rate_limited, yahoo_AAPL)])) ''aapl'' = None"
  by (simp add: getMultipleStockPrices_def settled_def collect_def property_key_def
      getStockPrice_def cached_def map_get_def new_StockDataClient_def fetch_chain_def
      alphaVantage_getStockData_def yahooFinance_getStockData_def
      alpha_rate_limited_def yahoo_AAPL_def reply_def and_then_def rethrow_def field_def)


















section \<open>The news search and the rate-limit cooldown\<close>




















lemma getNews_cooling:
  "now < rateLimitedUntil c \<Longrightarrow> newsApi_getNews ToString now later net c query options = ([], c, None)"
  by (simp add: newsApi_getNews_def)

lemma getNews_attempts:
  "\<not> now < rateLimitedUntil c \<Longrightarrow>
   snd (snd (newsApi_getNews ToString now later net c query options)) \<noteq> None"
  by (simp add: newsApi_getNews_def Let_def split: sum.splits option.splits json.splits)

lemma rateLimitedUntil_warn_at [simp]: "rateLimitedUntil (warn_at t c) = rateLimitedUntil c"
  by (simp add: warn_at_def)

lemma getNews_throttled:
  assumes "\<not> now < rateLimitedUntil c" and "throttled ToString net"
  shows "fst (newsApi_getNews ToString now later net c query options) = []
       \<and> rateLimitedUntil (fst (snd (newsApi_getNews ToString now later net c query options)))
           = later + six_hours
       \<and> snd (snd (newsApi_getNews ToString now later net c query options)) \<noteq> None"
  using assms
  by (auto simp: newsApi_getNews_def throttled_def Let_def split: sum.splits)

lemma news_calls_cooling:
  "\<forall>call \<in> set cs. fst call < rateLimitedUntil c \<Longrightarrow>
   news_calls ToString cs c = (map (\<lambda>call. ([], None)) cs, c)"
proof (induction cs)
  case Nil
  then show ?case by simp
next
  case (Cons call cs)
  obtain now later net query options where call: "call = (now, later, net, query, options)"
    by (cases call) auto
  with Cons.prems have "now < rateLimitedUntil c" by simp
  then have "newsApi_getNews ToString now later net c query options = ([], c, None)"
    by (rule getNews_cooling)
  with Cons call show ?case by simp
qed

text \<open>
  Claim C9. A call of the primary news provider outside a cooldown whose reply signals
  throttling (a status other than \<^verbatim>\<open>ok\<close> and a message that contains, in any letter
  case, \<^verbatim>\<open>too many requests\<close>, \<^verbatim>\<open>rate\<close> or \<^verbatim>\<open>limit\<close>) has called the network, returns the
  empty array and sets the cooldown to 6 hours (21600000 ms) after the time the reply
  was read. Every run of calls that are all entered before that time returns the empty
  array for each, calls the network for none and leaves the client as it is; the first
  call entered at or after that time calls the network again.
\<close>

theorem rate_limit_cooldown:
  assumes "\<not> now < rateLimitedUntil c" and "throttled ToString net"
    and "\<forall>call \<in> set cs. fst call < later + six_hours"
    and "later + six_hours \<le> now'"
  shows "fst (newsApi_getNews ToString now later net c query options) = []
   \<and> snd (snd (newsApi_getNews ToString now later net c query options)) \<noteq> None
   \<and> rateLimitedUntil (fst (snd (newsApi_getNews ToString now later net c query options)))
       = later + 21600000
   \<and> news_calls ToString cs (fst (snd (newsApi_getNews ToString now later net c query options)))
       = (map (\<lambda>call. ([], None)) cs,
          fst (snd (newsApi_getNews ToString now later net c query options)))
   \<and> snd (snd (newsApi_getNews ToString now' later' net'
                 (snd (news_calls ToString cs
                        (fst (snd (newsApi_getNews ToString now later net c query options)))))
                 query' options')) \<noteq> None
   \<and> (\<forall>t. isRateLimited t (fst (snd (newsApi_getNews ToString now later net c query options)))
            = (t < later + 21600000))"
proof -
  let ?c1 = "fst (snd (newsApi_getNews ToString now later net c query options))"
  from getNews_throttled[OF assms(1,2), of later query options]
  have e: "fst (newsApi_getNews ToString now later net c query options) = []"
    and u: "rateLimitedUntil ?c1 = later + six_hours"
    and a: "snd (snd (newsApi_getNews ToString now later net c query options)) \<noteq> None"
    by blast+
  from assms(3) u have "\<forall>call \<in> set cs. fst call < rateLimitedUntil ?c1" by simp
  then have n: "news_calls ToString cs ?c1 = (map (\<lambda>call. ([], None)) cs, ?c1)"
    by (rule news_calls_cooling)
  from assms(4) u have "\<not> now' < rateLimitedUntil ?c1" by simp
  then have "snd (snd (newsApi_getNews ToString now' later' net' ?c1 query' options')) \<noteq> None"
    by (rule getNews_attempts)
  with e u a n show ?thesis by (simp add: six_hours_def isRateLimited_def)
qed

text \<open>The theorem at a fresh client that is told \<^verbatim>\<open>too many requests\<close> at time 1200: the
  calls at 2000 and at 21601199 return the empty array without a request, the call at
  21601200 sends one.\<close>

theorem rate_limit_cooldown_witness:
  "news_calls (\<lambda>v. [])
      [(2000, 2100, no_articles, ''IBM'', search_options),
       (21601199, 21601300, no_articles, ''IBM'', search_options)]
      (fst (snd (newsApi_getNews (\<lambda>v. []) 1000 1200 too_many_requests
                   (new_NewsAPIClient ''demo'') ''IBM'' search_options)))
     = ([([], None), ([], None)],
        fst (snd (newsApi_getNews (\<lambda>v. []) 1000 1200 too_many_requests
                   (new_NewsAPIClient ''demo'') ''IBM'' search_options)))
   \<and> rateLimitedUntil (fst (snd (newsApi_getNews (\<lambda>v. []) 1000 1200 too_many_requests
                   (new_NewsAPIClient ''demo'') ''IBM'' search_options))) = 21601200
   \<and> snd (snd (newsApi_getNews (\<lambda>v. []) 21601200 21601300 no_articles
        (snd (news_calls (\<lambda>v. [])
           [(2000, 2100, no_articles, ''IBM'', search_options),
            (21601199, 21601300, no_articles, ''IBM'', search_options)]
           (fst (snd (newsApi_getNews (\<lambda>v. []) 1000 1200 too_many_requests
                   (new_NewsAPIClient ''demo'') ''IBM'' search_options)))))
        ''IBM'' search_options)) \<noteq> None"
proof -
  have h1: "\<not> 1000 < rateLimitedUntil (new_NewsAPIClient ''demo'')"
    by (simp add: new_NewsAPIClient_def)
  have h2: "throttled (\<lambda>v. []) too_many_requests"
    by code_simp
  have h3: "\<forall>call \<in> set [(2000, 2100, no_articles, ''IBM'', search_options),
       (21601199, 21601300, no_articles, ''IBM'', search_options)]. fst call < 1200 + six_hours"
    by (simp add: six_hours_def)
  have h4: "1200 + six_hours \<le> 21601200" by (simp add: six_hours_def)
  let ?c1 = "fst (snd (newsApi_getNews (\<lambda>v. []) 1000 1200 too_many_requests
                   (new_NewsAPIClient ''demo'') ''IBM'' search_options))"
  let ?cs = "[(2000, 2100, no_articles, ''IBM'', search_options),
       (21601199, 21601300, no_articles, ''IBM'', search_options)]
       :: (int \<times> int \<times> fetch_result \<times> string \<times> news_options) list"
  note inst = rate_limit_cooldown[OF h1 h2 h3 h4, of "''IBM''" search_options 21601300 no_articles
      "''IBM''" search_options]
  have "news_calls (\<lambda>v. []) ?cs ?c1 = (map (\<lambda>call. ([], None)) ?cs, ?c1)"
    by (rule inst[THEN conjunct2, THEN conjunct2, THEN conjunct2, THEN conjunct1])
  then have 1: "news_calls (\<lambda>v. []) ?cs ?c1 = ([([], None), ([], None)], ?c1)"
    by (simp only: list.map)
  have "rateLimitedUntil ?c1 = 1200 + 21600000"
    by (rule inst[THEN conjunct2, THEN conjunct2, THEN conjunct1])
  then have 2: "rateLimitedUntil ?c1 = 21601200" by simp
  have 3: "snd (snd (newsApi_getNews (\<lambda>v. []) 21601200 21601300 no_articles
        (snd (news_calls (\<lambda>v. []) ?cs ?c1)) ''IBM'' search_options)) \<noteq> None"
    by (rule inst[THEN conjunct2, THEN conjunct2, THEN conjunct2, THEN conjunct2, THEN conjunct1])
  show ?thesis by (rule conjI[OF 1 conjI[OF 2 3]])
qed

end
